theory Spec2Isabelle
  imports Main
begin

section \<open>IPL 2025 Statistics Analyzer: a shallow embedding of \<open>ipl_analyzer.py\<close>\<close>

text \<open>
  The analyzer keeps four pandas frames (batting, bowling, fielding, team standings) as
  attributes of one object and answers queries by printing to the console, by showing a
  chart, or by writing a text report. The embedding makes each of these effects a value:
  \<^item> a frame is the list of its rows, in stored order, under the default index
    \<open>0, 1, 2, \<dots>\<close> that \<open>read_csv\<close> gives it;
  \<^item> an attribute of the object that may never have been assigned is an \<open>option\<close>;
  \<^item> every \<open>print\<close>, every chart shown and every \<open>write\<close> is an element of the
    list of effects a method returns, in program order;
  \<^item> an exception that leaves a method is returned next to the effects that happened
    before it was raised.
  Text is a \<open>string\<close>. The pictographs of the console messages are written as their
  UTF-8 bytes.
\<close>

subsection \<open>Python numbers and text\<close>

text \<open>
  A Python \<open>float\<close> is a binary floating-point number: a sign, a mantissa and a binary
  exponent (\<open>Finite s m e\<close> stands for \<open>(-1)\<^sup>s * m * 2\<^sup>e\<close>, so that \<open>Finite True 0 0\<close> is the
  negative zero), an infinity, or not-a-number. Integer columns are unbounded \<open>int\<close>s.
\<close>

datatype pyfloat = Finite bool nat int | Infinity bool | NaN

datatype error =
    AttributeError string
  | ValueError
  | KeyError
  | IndexError
  | ParserError
  | FileNotFoundError string
  | TypeError

definition digit_char :: "nat \<Rightarrow> char" where
  "digit_char d = char_of (48 + d)"

fun str_nat :: "nat \<Rightarrow> string" where
  "str_nat n = (if n < 10 then [digit_char n] else str_nat (n div 10) @ [digit_char (n mod 10)])"

declare str_nat.simps [simp del]

definition str_int :: "int \<Rightarrow> string" where
  "str_int i = (if i < 0 then CHR ''-'' # str_nat (nat (- i)) else str_nat (nat i))"

definition rjust :: "nat \<Rightarrow> char \<Rightarrow> string \<Rightarrow> string" where
  "rjust w c s = replicate (w - length s) c @ s"

definition ljust :: "nat \<Rightarrow> char \<Rightarrow> string \<Rightarrow> string" where
  "ljust w c s = s @ replicate (w - length s) c"

text \<open>\<open>format(i, 'wd')\<close>: decimal, right-aligned in at least \<open>w\<close> columns.\<close>

definition fmt_d :: "nat \<Rightarrow> int \<Rightarrow> string" where
  "fmt_d w i = rjust w CHR '' '' (str_int i)"

text \<open>\<open>format(s, '<w')\<close>: the text, left-aligned in at least \<open>w\<close> columns.\<close>

definition fmt_left :: "nat \<Rightarrow> string \<Rightarrow> string" where
  "fmt_left w s = ljust w CHR '' '' s"

text \<open>
  \<open>round_scaled m e p\<close> is \<open>m * 2\<^sup>e * 10\<^sup>p\<close> rounded to the nearest integer, a tie going to
  the even neighbour: the correctly rounded conversion that Python's \<open>'f'\<close> presentation
  performs on the exact value of the float.
\<close>

definition round_scaled :: "nat \<Rightarrow> int \<Rightarrow> nat \<Rightarrow> nat" where
  "round_scaled m e p =
     (if 0 \<le> e then m * 2 ^ nat e * 10 ^ p
      else let d = 2 ^ nat (- e); n = m * 10 ^ p; q = n div d; r = n mod d
           in if 2 * r < d then q
              else if d < 2 * r then q + 1
              else if even q then q else q + 1)"

definition fixed_digits :: "nat \<Rightarrow> nat \<Rightarrow> string" where
  "fixed_digits p k =
     str_nat (k div 10 ^ p) @ ''.'' @ rjust p CHR ''0'' (str_nat (k mod 10 ^ p))"

text \<open>
  \<open>format(x, '+.pf')\<close> when \<open>always_sign\<close> holds and \<open>format(x, '.pf')\<close> otherwise, for a
  precision \<open>p > 0\<close>.
\<close>

definition fmt_f :: "bool \<Rightarrow> nat \<Rightarrow> pyfloat \<Rightarrow> string" where
  "fmt_f always_sign p x =
     (case x of
        Finite s m e \<Rightarrow>
          (if s then ''-'' else if always_sign then ''+'' else '''') @ fixed_digits p (round_scaled m e p)
      | Infinity s \<Rightarrow> (if s then ''-'' else if always_sign then ''+'' else '''') @ ''inf''
      | NaN \<Rightarrow> (if always_sign then ''+'' else '''') @ ''nan'')"

text \<open>
  \<open>str.lower\<close>, \<open>str.upper\<close> and \<open>str.capitalize\<close>. On a text of ASCII characters they
  map the letters \<open>A\<close> to \<open>Z\<close> and \<open>a\<close> to \<open>z\<close> and leave every other character as it
  is. On a text with a character outside ASCII they follow the Unicode case mapping of
  the Python runtime, which may change the number of characters and turn a character
  outside ASCII into an ASCII letter. That mapping is not part of the repository: it is
  the parameter \<open>U\<close> of the three functions, and of every method that calls them, so that
  what is proved holds for whatever the runtime does there.
\<close>

record case_mapping =
  lower_text :: "string \<Rightarrow> string"
  upper_text :: "string \<Rightarrow> string"
  capitalize_text :: "string \<Rightarrow> string"

definition is_ascii :: "char \<Rightarrow> bool" where
  "is_ascii c \<longleftrightarrow> (of_char c :: nat) < 128"

definition lower_char :: "char \<Rightarrow> char" where
  "lower_char c =
     (let k = of_char c :: nat in if 65 \<le> k \<and> k \<le> 90 then char_of (k + 32) else c)"

definition upper_char :: "char \<Rightarrow> char" where
  "upper_char c =
     (let k = of_char c :: nat in if 97 \<le> k \<and> k \<le> 122 then char_of (k - 32) else c)"

definition str_lower :: "case_mapping \<Rightarrow> string \<Rightarrow> string" where
  "str_lower U s = (if list_all is_ascii s then map lower_char s else lower_text U s)"

definition str_upper :: "case_mapping \<Rightarrow> string \<Rightarrow> string" where
  "str_upper U s = (if list_all is_ascii s then map upper_char s else upper_text U s)"

definition str_capitalize :: "case_mapping \<Rightarrow> string \<Rightarrow> string" where
  "str_capitalize U s =
     (if list_all is_ascii s
      then (case s of [] \<Rightarrow> [] | c # cs \<Rightarrow> upper_char c # map lower_char cs)
      else capitalize_text U s)"

subsection \<open>The pandas operations the analyzer calls\<close>

text \<open>
  \<open>read_csv\<close> either finds no file, or cannot parse it, or yields a frame.
\<close>

datatype 'r csv = Missing | Malformed | Parsed "'r list"

definition read_csv :: "'r csv \<Rightarrow> string \<Rightarrow> error + 'r list" where
  "read_csv f name =
     (case f of
        Missing \<Rightarrow> Inl (FileNotFoundError name)
      | Malformed \<Rightarrow> Inl ParserError
      | Parsed df \<Rightarrow> Inr df)"

text \<open>
  \<open>df.nlargest(n, col)\<close> with the default \<open>keep='first'\<close>. A frame without rows, as
  \<open>read_csv\<close> gives it from a file that holds the header line only, has columns of dtype
  \<open>object\<close>, and \<open>nlargest\<close> refuses a column of that dtype with \<open>TypeError\<close> before it
  looks at \<open>n\<close>. On a frame with rows the integer column is ranked: the first \<open>n\<close> rows of
  the frame ordered by \<open>col\<close> descending, rows with equal values staying in their original
  order; nothing for \<open>n \<le> 0\<close>.
\<close>

definition nlargest :: "int \<Rightarrow> ('r \<Rightarrow> int) \<Rightarrow> 'r list \<Rightarrow> error + 'r list" where
  "nlargest n col df =
     (if df = [] then Inl TypeError
      else Inr (if n \<le> 0 then [] else take (nat n) (sort_key (\<lambda>r. - col r) df)))"

text \<open>
  \<open>series.idxmax()\<close>: the index of the first occurrence of the maximum, found by one scan
  that replaces the candidate only by a strictly larger value; \<open>ValueError\<close> on an empty
  series.
\<close>

fun argmax_from :: "nat \<Rightarrow> int \<Rightarrow> nat \<Rightarrow> int list \<Rightarrow> nat" where
  "argmax_from bi bv i [] = bi"
| "argmax_from bi bv i (x # xs) =
     (if bv < x then argmax_from i x (Suc i) xs else argmax_from bi bv (Suc i) xs)"

definition idxmax :: "int list \<Rightarrow> error + nat" where
  "idxmax xs = (case xs of [] \<Rightarrow> Inl ValueError | x # rest \<Rightarrow> Inr (argmax_from 0 x 1 rest))"

text \<open>\<open>df.loc[i]\<close> under the default index.\<close>

definition loc :: "'r list \<Rightarrow> nat \<Rightarrow> error + 'r" where
  "loc df i = (if i < length df then Inr (df ! i) else Inl KeyError)"

text \<open>\<open>df.head(k)\<close>.\<close>

definition head :: "nat \<Rightarrow> 'r list \<Rightarrow> 'r list" where
  "head k df = take k df"

text \<open>\<open>df.iloc[0]\<close>.\<close>

definition iloc0 :: "'r list \<Rightarrow> error + 'r" where
  "iloc0 df = (case df of [] \<Rightarrow> Inl IndexError | r # _ \<Rightarrow> Inr r)"

subsection \<open>The four tables\<close>

record batting_row =
  Player :: string
  Team :: string
  Runs :: int
  Average :: pyfloat
  Strike_Rate :: pyfloat
  Fours :: int
  Sixes :: int

record bowling_row =
  Player :: string
  Team :: string
  Wickets :: int
  Economy :: pyfloat
  Average :: pyfloat
  Strike_Rate :: pyfloat

record fielding_row =
  Player :: string
  Team :: string
  Catches :: int
  Matches :: int

record team_row =
  Position :: int
  Team :: string
  Points :: int
  NRR :: pyfloat
  Total_Runs :: int
  Won :: int
  Lost :: int
  Highest_Total :: int

text \<open>The object: an attribute is \<open>None\<close> until \<open>load_data\<close> assigns it.\<close>

record analyzer =
  batting_df :: "batting_row list option"
  bowling_df :: "bowling_row list option"
  fielding_df :: "fielding_row list option"
  team_df :: "team_row list option"

definition unloaded :: analyzer where
  "unloaded = \<lparr>batting_df = None, bowling_df = None, fielding_df = None, team_df = None\<rparr>"

text \<open>The four files of the working directory, as \<open>read_csv\<close> sees them.\<close>

record files =
  batting_csv :: "batting_row csv"
  bowling_csv :: "bowling_row csv"
  fielding_csv :: "fielding_row csv"
  team_csv :: "team_row csv"

subsection \<open>Effects\<close>

datatype cell = CStr string | CInt int | CFloat pyfloat

record chart =
  title :: string
  xticklabels :: "string list"
  label1 :: string
  values1 :: "cell list"
  label2 :: string
  values2 :: "cell list"

text \<open>
  \<open>Print s\<close> is \<open>print(s)\<close>; \<open>PrintFrame cols rows\<close> is
  \<open>print(frame.to_string(index=False))\<close> for a frame with these columns and rows;
  \<open>ShowChart c\<close> is the bar chart handed to the plotting library and shown.
\<close>

datatype out = Print string | PrintFrame "string list" "cell list list" | ShowChart chart

type_synonym run = "out list \<times> error option"

text \<open>
  Statements in sequence: the second runs on the value of the first unless the first
  raised. \<open>attr v name\<close> reads the attribute \<open>self.name\<close>.
\<close>

definition and_then :: "error + 'a \<Rightarrow> ('a \<Rightarrow> error + 'b) \<Rightarrow> error + 'b" where
  "and_then r k = (case r of Inl e \<Rightarrow> Inl e | Inr x \<Rightarrow> k x)"

definition attr :: "'a option \<Rightarrow> string \<Rightarrow> error + 'a" where
  "attr v name = (case v of None \<Rightarrow> Inl (AttributeError name) | Some x \<Rightarrow> Inr x)"

subsection \<open>Console pictographs\<close>

definition cricket :: string where "cricket = [CHR 0xF0, CHR 0x9F, CHR 0x8F, CHR 0x8F]"
definition bar_chart :: string where "bar_chart = [CHR 0xF0, CHR 0x9F, CHR 0x93, CHR 0x8A]"
definition goal_net :: string where "goal_net = [CHR 0xF0, CHR 0x9F, CHR 0xA5, CHR 0x85]"
definition check_mark :: string where "check_mark = [CHR 0xE2, CHR 0x9C, CHR 0x85]"
definition cross_mark :: string where "cross_mark = [CHR 0xE2, CHR 0x9D, CHR 0x8C]"
definition trophy :: string where "trophy = [CHR 0xF0, CHR 0x9F, CHR 0x8F, CHR 0x86]"
definition first_medal :: string where "first_medal = [CHR 0xF0, CHR 0x9F, CHR 0xA5, CHR 0x87]"
definition second_medal :: string where "second_medal = [CHR 0xF0, CHR 0x9F, CHR 0xA5, CHR 0x88]"
definition runner :: string where "runner = [CHR 0xF0, CHR 0x9F, CHR 0x8F, CHR 0x83]"
definition orange_circle :: string where "orange_circle = [CHR 0xF0, CHR 0x9F, CHR 0x9F, CHR 0xA0]"
definition purple_circle :: string where "purple_circle = [CHR 0xF0, CHR 0x9F, CHR 0x9F, CHR 0xA3]"
definition glowing_star :: string where "glowing_star = [CHR 0xF0, CHR 0x9F, CHR 0x8C, CHR 0x9F]"
definition page :: string where "page = [CHR 0xF0, CHR 0x9F, CHR 0x93, CHR 0x84]"

subsection \<open>\<open>load_data\<close> and \<open>__init__\<close>\<close>

text \<open>
  The handler of \<open>load_data\<close>: a \<open>FileNotFoundError\<close> is reported on the console and the
  method returns, the object keeping the attributes assigned so far; any other exception
  leaves the method.
\<close>

definition not_found_report :: "string \<Rightarrow> out list" where
  "not_found_report name =
     [Print (cross_mark @ '' Error loading data: [Errno 2] No such file or directory: ''
             @ [CHR 0x27] @ name @ [CHR 0x27]),
      Print ''Please ensure all CSV files are in the current directory'']"

definition load_except :: "error \<Rightarrow> analyzer \<Rightarrow> out list \<times> (error + analyzer)" where
  "load_except e self =
     (case e of
        FileNotFoundError name \<Rightarrow> (not_found_report name, Inr self)
      | _ \<Rightarrow> ([], Inl e))"

definition load_data :: "files \<Rightarrow> analyzer \<Rightarrow> out list \<times> (error + analyzer)" where
  "load_data fs self =
     (case read_csv (batting_csv fs) ''ipl_2025_batting_stats.csv'' of
        Inl e \<Rightarrow> load_except e self
      | Inr b \<Rightarrow>
     (let self = self\<lparr>batting_df := Some b\<rparr> in
      case read_csv (bowling_csv fs) ''ipl_2025_bowling_stats.csv'' of
        Inl e \<Rightarrow> load_except e self
      | Inr w \<Rightarrow>
     (let self = self\<lparr>bowling_df := Some w\<rparr> in
      case read_csv (fielding_csv fs) ''ipl_2025_fielding_stats.csv'' of
        Inl e \<Rightarrow> load_except e self
      | Inr f \<Rightarrow>
     (let self = self\<lparr>fielding_df := Some f\<rparr> in
      case read_csv (team_csv fs) ''ipl_2025_team_stats.csv'' of
        Inl e \<Rightarrow> load_except e self
      | Inr t \<Rightarrow>
          ([Print (check_mark @ '' All datasets loaded successfully!'')],
           Inr (self\<lparr>team_df := Some t\<rparr>))))))"

text \<open>
  The constructor: \<open>load_data\<close> on the fresh object, then two messages with the sizes of
  the four frames. Reading an attribute that was never assigned raises
  \<open>AttributeError\<close>; the arguments of a message are evaluated before it is printed.
\<close>

definition init :: "files \<Rightarrow> out list \<times> (error + analyzer)" where
  "init fs =
     (case load_data fs unloaded of
        (o1, Inl e) \<Rightarrow> (o1, Inl e)
      | (o1, Inr self) \<Rightarrow>
          (let o2 = o1 @ [Print (cricket @ '' IPL 2025 Statistics Analyzer Initialized!'')] in
           case and_then (attr (batting_df self) ''batting_df'') (\<lambda>b.
                and_then (attr (bowling_df self) ''bowling_df'') (\<lambda>w. Inr (b, w))) of
             Inl e \<Rightarrow> (o2, Inl e)
           | Inr (b, w) \<Rightarrow>
               (let o3 = o2 @ [Print (bar_chart @ '' Loaded data for '' @ str_nat (length b)
                                      @ '' batsmen, '' @ str_nat (length w) @ '' bowlers'')] in
                case and_then (attr (fielding_df self) ''fielding_df'') (\<lambda>f.
                     and_then (attr (team_df self) ''team_df'') (\<lambda>t. Inr (f, t))) of
                  Inl e \<Rightarrow> (o3, Inl e)
                | Inr (f, t) \<Rightarrow>
                    (o3 @ [Print (goal_net @ '' '' @ str_nat (length f) @ '' fielders, and ''
                                  @ str_nat (length t) @ '' teams'')],
                     Inr self))))"

subsection \<open>Individual awards\<close>

text \<open>\<open>df.loc[df[col].idxmax()]\<close>.\<close>

definition award :: "('r \<Rightarrow> int) \<Rightarrow> 'r list \<Rightarrow> error + 'r" where
  "award col df = and_then (idxmax (map col df)) (loc df)"

text \<open>
  The three statements that \<open>display_summary\<close> and \<open>generate_report\<close> both run under the
  comment \<open>Individual awards\<close>: orange cap, purple cap, best fielder, in this order.
\<close>

definition individual_awards ::
  "analyzer \<Rightarrow> error + (batting_row \<times> bowling_row \<times> fielding_row)" where
  "individual_awards self =
     and_then (attr (batting_df self) ''batting_df'') (\<lambda>b.
     and_then (award Runs b) (\<lambda>orange_cap.
     and_then (attr (bowling_df self) ''bowling_df'') (\<lambda>w.
     and_then (award Wickets w) (\<lambda>purple_cap.
     and_then (attr (fielding_df self) ''fielding_df'') (\<lambda>f.
     and_then (award Catches f) (\<lambda>best_fielder.
       Inr (orange_cap, purple_cap, best_fielder)))))))"

text \<open>The text shared by the award messages of the console and of the report.\<close>

definition orange_cap_text :: "batting_row \<Rightarrow> string" where
  "orange_cap_text r =
     ''Orange Cap: '' @ batting_row.Player r @ '' ('' @ batting_row.Team r @ '') - ''
     @ str_int (Runs r) @ '' runs''"

definition purple_cap_text :: "bowling_row \<Rightarrow> string" where
  "purple_cap_text r =
     ''Purple Cap: '' @ bowling_row.Player r @ '' ('' @ bowling_row.Team r @ '') - ''
     @ str_int (Wickets r) @ '' wickets''"

definition best_fielder_text :: "fielding_row \<Rightarrow> string" where
  "best_fielder_text r =
     ''Best Fielder: '' @ fielding_row.Player r @ '' ('' @ fielding_row.Team r @ '') - ''
     @ str_int (Catches r) @ '' catches''"

subsection \<open>\<open>display_summary\<close>\<close>

definition summary_banner :: "out list" where
  "summary_banner =
     [Print (''\<newline>'' @ replicate 60 CHR ''=''),
      Print (trophy @ '' IPL 2025 TOURNAMENT SUMMARY''),
      Print (replicate 60 CHR ''=''),
      Print (first_medal @ '' Champion: Royal Challengers Bengaluru''),
      Print (second_medal @ '' Runner-up: Punjab Kings''),
      Print (runner @ '' Final Margin: 6 runs'')]"

definition award_prints :: "batting_row \<times> bowling_row \<times> fielding_row \<Rightarrow> out list" where
  "award_prints a =
     (case a of (orange_cap, purple_cap, best_fielder) \<Rightarrow>
        [Print (''\<newline>'' @ orange_circle @ '' '' @ orange_cap_text orange_cap),
         Print (purple_circle @ '' '' @ purple_cap_text purple_cap),
         Print (goal_net @ '' '' @ best_fielder_text best_fielder)])"

definition standing_print :: "team_row \<Rightarrow> out" where
  "standing_print team =
     Print (str_int (Position team) @ ''. '' @ team_row.Team team @ '' - ''
            @ str_int (Points team) @ '' pts (NRR: '' @ fmt_f True 3 (NRR team) @ '')'')"

definition standings_heading :: out where
  "standings_heading = Print (''\<newline>'' @ bar_chart @ '' POINTS TABLE (Top 4):'')"

definition display_summary :: "analyzer \<Rightarrow> run" where
  "display_summary self =
     (case individual_awards self of
        Inl e \<Rightarrow> (summary_banner, Some e)
      | Inr a \<Rightarrow>
     (let o1 = summary_banner @ award_prints a @ [standings_heading] in
      case team_df self of
        None \<Rightarrow> (o1, Some (AttributeError ''team_df''))
      | Some t \<Rightarrow> (o1 @ map standing_print (head 4 t), None)))"

subsection \<open>\<open>top_performers\<close>\<close>

definition batting_cells :: "batting_row \<Rightarrow> cell list" where
  "batting_cells r =
     [CStr (batting_row.Player r), CStr (batting_row.Team r), CInt (Runs r),
      CFloat (batting_row.Average r), CFloat (batting_row.Strike_Rate r)]"

definition bowling_cells :: "bowling_row \<Rightarrow> cell list" where
  "bowling_cells r =
     [CStr (bowling_row.Player r), CStr (bowling_row.Team r), CInt (Wickets r),
      CFloat (Economy r), CFloat (bowling_row.Average r)]"

definition fielding_cells :: "fielding_row \<Rightarrow> cell list" where
  "fielding_cells r =
     [CStr (fielding_row.Player r), CStr (fielding_row.Team r), CInt (Catches r),
      CInt (Matches r)]"

definition performers_header :: "case_mapping \<Rightarrow> string \<Rightarrow> int \<Rightarrow> out list" where
  "performers_header U category n =
     [Print (''\<newline>'' @ glowing_star @ '' TOP '' @ str_int n @ '' '' @ str_upper U category
             @ '' PERFORMERS''),
      Print (replicate 50 CHR ''-'')]"

definition top_performers :: "case_mapping \<Rightarrow> analyzer \<Rightarrow> string \<Rightarrow> int \<Rightarrow> run" where
  "top_performers U self category n =
     (let hdr = performers_header U category n in
      if str_lower U category = ''batting'' then
        (case and_then (attr (batting_df self) ''batting_df'') (nlargest n Runs) of
           Inl e \<Rightarrow> (hdr, Some e)
         | Inr rows \<Rightarrow>
             (hdr @ [PrintFrame [''Player'', ''Team'', ''Runs'', ''Average'', ''Strike_Rate'']
                       (map batting_cells rows)], None))
      else if str_lower U category = ''bowling'' then
        (case and_then (attr (bowling_df self) ''bowling_df'') (nlargest n Wickets) of
           Inl e \<Rightarrow> (hdr, Some e)
         | Inr rows \<Rightarrow>
             (hdr @ [PrintFrame [''Player'', ''Team'', ''Wickets'', ''Economy'', ''Average'']
                       (map bowling_cells rows)], None))
      else if str_lower U category = ''fielding'' then
        (case and_then (attr (fielding_df self) ''fielding_df'') (nlargest n Catches) of
           Inl e \<Rightarrow> (hdr, Some e)
         | Inr rows \<Rightarrow>
             (hdr @ [PrintFrame [''Player'', ''Team'', ''Catches'', ''Matches'']
                       (map fielding_cells rows)], None))
      else (hdr, None))"

subsection \<open>\<open>compare_players\<close>\<close>

definition batting_metrics :: "string list" where
  "batting_metrics = [''Runs'', ''Average'', ''Strike_Rate'', ''Fours'', ''Sixes'']"

definition bowling_metrics :: "string list" where
  "bowling_metrics = [''Wickets'', ''Economy'', ''Average'', ''Strike_Rate'']"

definition batting_values :: "batting_row \<Rightarrow> cell list" where
  "batting_values r =
     [CInt (Runs r), CFloat (batting_row.Average r), CFloat (batting_row.Strike_Rate r),
      CInt (Fours r), CInt (Sixes r)]"

definition bowling_values :: "bowling_row \<Rightarrow> cell list" where
  "bowling_values r =
     [CInt (Wickets r), CFloat (Economy r), CFloat (bowling_row.Average r),
      CFloat (bowling_row.Strike_Rate r)]"

text \<open>\<open>df[df['Player'] == name].iloc[0]\<close>.\<close>

definition first_named :: "('r \<Rightarrow> string) \<Rightarrow> 'r list \<Rightarrow> string \<Rightarrow> error + 'r" where
  "first_named player_of df name = iloc0 (filter (\<lambda>r. player_of r = name) df)"

text \<open>
  The part of \<open>compare_players\<close> after the frame and the metric list are chosen: both
  lookups inside the \<open>try\<close>, whose handler for \<open>IndexError\<close> prints and returns; then the
  chart. \<open>player_of\<close>, \<open>team_of\<close> and \<open>values_of\<close> read the columns \<open>Player\<close>, \<open>Team\<close> and
  the metric columns of a row of the chosen frame.
\<close>

definition compare_in ::
  "case_mapping \<Rightarrow> ('r \<Rightarrow> string) \<Rightarrow> ('r \<Rightarrow> string) \<Rightarrow> ('r \<Rightarrow> cell list) \<Rightarrow> string list
   \<Rightarrow> 'r list \<Rightarrow> string \<Rightarrow> string \<Rightarrow> string \<Rightarrow> run" where
  "compare_in U player_of team_of values_of metrics df player1 player2 category =
     (case and_then (first_named player_of df player1) (\<lambda>p1_data.
           and_then (first_named player_of df player2) (\<lambda>p2_data. Inr (p1_data, p2_data))) of
        Inl e \<Rightarrow>
          (if e = IndexError then ([Print ''One or both players not found in the dataset''], None)
           else ([], Some e))
      | Inr (p1_data, p2_data) \<Rightarrow>
          ([ShowChart
              \<lparr>title = str_capitalize U category @ '' Comparison: '' @ player1 @ '' vs ''
                       @ player2,
               xticklabels = metrics,
               label1 = player1 @ '' ('' @ team_of p1_data @ '')'',
               values1 = values_of p1_data,
               label2 = player2 @ '' ('' @ team_of p2_data @ '')'',
               values2 = values_of p2_data\<rparr>],
           None))"

definition compare_players ::
  "case_mapping \<Rightarrow> analyzer \<Rightarrow> string \<Rightarrow> string \<Rightarrow> string \<Rightarrow> run" where
  "compare_players U self player1 player2 category =
     (if str_lower U category = ''batting'' then
        (case attr (batting_df self) ''batting_df'' of
           Inl e \<Rightarrow> ([], Some e)
         | Inr df \<Rightarrow>
             compare_in U batting_row.Player batting_row.Team batting_values batting_metrics df
               player1 player2 category)
      else if str_lower U category = ''bowling'' then
        (case attr (bowling_df self) ''bowling_df'' of
           Inl e \<Rightarrow> ([], Some e)
         | Inr df \<Rightarrow>
             compare_in U bowling_row.Player bowling_row.Team bowling_values bowling_metrics df
               player1 player2 category)
      else ([Print (''Category must be '' @ [CHR 0x27] @ ''batting'' @ [CHR 0x27] @ '' or ''
                    @ [CHR 0x27] @ ''bowling'' @ [CHR 0x27])], None))"

subsection \<open>\<open>generate_report\<close>\<close>

text \<open>
  What one call leaves behind: the strings written, in order, to the file it opened for
  writing (the file holds their concatenation when the \<open>with\<close> block is left, also by an
  exception), the console output, and the exception that left the method, if any.
\<close>

record report =
  written :: "string list"
  printed :: "out list"
  raised :: "error option"

definition rule20 :: string where
  "rule20 = replicate 20 CHR ''-'' @ ''\<newline>''"

text \<open>\<open>stamp\<close> is \<open>datetime.now().strftime('%Y-%m-%d %H:%M:%S')\<close>.\<close>

definition report_head :: "string \<Rightarrow> string list" where
  "report_head stamp =
     [''IPL 2025 COMPREHENSIVE ANALYSIS REPORT\<newline>'',
      replicate 50 CHR ''='' @ ''\<newline>\<newline>'',
      ''Generated on: '' @ stamp @ ''\<newline>\<newline>'',
      ''TOURNAMENT SUMMARY\<newline>'',
      rule20,
      ''Champion: Royal Challengers Bengaluru\<newline>'',
      ''Runner-up: Punjab Kings\<newline>'',
      ''Total Teams: 10\<newline>'',
      ''Total Matches: 74\<newline>\<newline>'']"

definition award_writes :: "batting_row \<times> bowling_row \<times> fielding_row \<Rightarrow> string list" where
  "award_writes a =
     (case a of (orange_cap, purple_cap, best_fielder) \<Rightarrow>
        [''INDIVIDUAL AWARDS\<newline>'',
         rule20,
         orange_cap_text orange_cap @ ''\<newline>'',
         purple_cap_text purple_cap @ ''\<newline>'',
         best_fielder_text best_fielder @ ''\<newline>\<newline>''])"

definition team_line :: "team_row \<Rightarrow> string" where
  "team_line team =
     fmt_d 2 (Position team) @ ''. '' @ fmt_left 4 (team_row.Team team) @ '' - ''
     @ fmt_d 2 (Points team) @ '' pts | W: '' @ fmt_d 2 (Won team) @ '' L: ''
     @ fmt_d 2 (Lost team) @ '' | NRR: '' @ fmt_f True 3 (NRR team) @ ''\<newline>''"

definition batsman_line :: "batting_row \<Rightarrow> string" where
  "batsman_line player =
     fmt_left 20 (batting_row.Player player) @ '' ('' @ batting_row.Team player @ '') - ''
     @ fmt_d 3 (Runs player) @ '' runs @ '' @ fmt_f False 2 (batting_row.Average player)
     @ '' avg, SR: '' @ fmt_f False 2 (batting_row.Strike_Rate player) @ ''\<newline>''"

definition bowler_line :: "bowling_row \<Rightarrow> string" where
  "bowler_line player =
     fmt_left 20 (bowling_row.Player player) @ '' ('' @ bowling_row.Team player @ '') - ''
     @ fmt_d 2 (Wickets player) @ '' wickets @ '' @ fmt_f False 2 (bowling_row.Average player)
     @ '' avg, Econ: '' @ fmt_f False 2 (Economy player) @ ''\<newline>''"

definition generate_report :: "analyzer \<Rightarrow> string \<Rightarrow> string \<Rightarrow> report" where
  "generate_report self filename stamp =
     (case individual_awards self of
        Inl e \<Rightarrow> \<lparr>written = report_head stamp, printed = [], raised = Some e\<rparr>
      | Inr a \<Rightarrow>
     (let w1 = report_head stamp @ award_writes a @ [''FINAL POINTS TABLE\<newline>'', rule20] in
      case attr (team_df self) ''team_df'' of
        Inl e \<Rightarrow> \<lparr>written = w1, printed = [], raised = Some e\<rparr>
      | Inr t \<Rightarrow>
     (let w2 = w1 @ map team_line t @ [''\<newline>TOP 5 BATSMEN\<newline>'', rule20] in
      case and_then (attr (batting_df self) ''batting_df'') (nlargest 5 Runs) of
        Inl e \<Rightarrow> \<lparr>written = w2, printed = [], raised = Some e\<rparr>
      | Inr top_batsmen \<Rightarrow>
     (let w3 = w2 @ map batsman_line top_batsmen
                @ [''\<newline>TOP 5 BOWLERS\<newline>'', rule20] in
      case and_then (attr (bowling_df self) ''bowling_df'') (nlargest 5 Wickets) of
        Inl e \<Rightarrow> \<lparr>written = w3, printed = [], raised = Some e\<rparr>
      | Inr top_bowlers \<Rightarrow>
          \<lparr>written = w3 @ map bowler_line top_bowlers,
           printed = [Print (page @ '' Report generated: '' @ filename)],
           raised = None\<rparr>))))"

subsection \<open>Vocabulary of the statements\<close>

text \<open>
  The chart that sets two players side by side: the left player's name, team and metric
  values, then the right player's.
\<close>

definition side_by_side ::
  "case_mapping \<Rightarrow> string \<Rightarrow> string list \<Rightarrow> string \<times> string \<times> cell list
   \<Rightarrow> string \<times> string \<times> cell list \<Rightarrow> chart" where
  "side_by_side U category metrics left right =
     (case (left, right) of ((name1, team1, vals1), (name2, team2, vals2)) \<Rightarrow>
        \<lparr>title = str_capitalize U category @ '' Comparison: '' @ name1 @ '' vs '' @ name2,
         xticklabels = metrics,
         label1 = name1 @ '' ('' @ team1 @ '')'', values1 = vals1,
         label2 = name2 @ '' ('' @ team2 @ '')'', values2 = vals2\<rparr>)"

text \<open>
  Row \<open>i\<close> of a frame holds the maximum of a column, and is the first row to hold it.
\<close>

definition first_max_at :: "('r \<Rightarrow> int) \<Rightarrow> 'r list \<Rightarrow> nat \<Rightarrow> bool" where
  "first_max_at col df i \<longleftrightarrow>
     i < length df \<and> (\<forall>j<length df. col (df ! j) \<le> col (df ! i))
     \<and> (\<forall>j<i. col (df ! j) < col (df ! i))"

text \<open>
  The row at index \<open>i\<close> ranks before the row at index \<open>j\<close>: it has the larger value in
  the column or, the values being equal, it comes earlier in the frame.
\<close>

definition ranks_before :: "('r \<Rightarrow> int) \<Rightarrow> 'r list \<Rightarrow> nat \<Rightarrow> nat \<Rightarrow> bool" where
  "ranks_before col df i j \<longleftrightarrow>
     col (df ! j) < col (df ! i) \<or> (col (df ! i) = col (df ! j) \<and> i < j)"

text \<open>
  \<open>rows\<close> are the \<open>k\<close> best rows of the frame, best first: each is the row at an index of
  the frame, no index twice; there are \<open>k\<close> of them, or as many as the frame has; each
  ranks before the next; and every row left out ranks after all of them.
\<close>

definition top_rows :: "('r \<Rightarrow> int) \<Rightarrow> 'r list \<Rightarrow> nat \<Rightarrow> 'r list \<Rightarrow> bool" where
  "top_rows col df k rows \<longleftrightarrow>
     (\<exists>idx. rows = map ((!) df) idx \<and> distinct idx \<and> (\<forall>i\<in>set idx. i < length df)
        \<and> length idx = min k (length df)
        \<and> sorted_wrt (ranks_before col df) idx
        \<and> (\<forall>j<length df. j \<notin> set idx \<longrightarrow> (\<forall>i\<in>set idx. ranks_before col df i j)))"

text \<open>
  Decimal digits, a text made of at least one of them, and the number such a text
  denotes.
\<close>

definition is_digit :: "char \<Rightarrow> bool" where
  "is_digit c \<longleftrightarrow> 48 \<le> (of_char c :: nat) \<and> (of_char c :: nat) \<le> 57"

definition decimal :: "string \<Rightarrow> bool" where
  "decimal s \<longleftrightarrow> s \<noteq> [] \<and> list_all is_digit s"

definition digits_value :: "string \<Rightarrow> nat" where
  "digits_value s = foldl (\<lambda>a c. 10 * a + (of_char c - 48)) 0 s"

definition file_text :: "report \<Rightarrow> string" where
  "file_text r = concat (written r)"

subsection \<open>Example tables\<close>

definition row_A :: batting_row where
  "row_A = \<lparr>batting_row.Player = ''A'', Team = ''TeamX'', Runs = 50,
            Average = Finite False 25 (- 1), Strike_Rate = Finite False 125 0,
            Fours = 4, Sixes = 1\<rparr>"

definition row_B :: batting_row where
  "row_B = \<lparr>batting_row.Player = ''B'', Team = ''TeamY'', Runs = 80,
            Average = Finite False 40 0, Strike_Rate = Finite False 301 (- 1),
            Fours = 7, Sixes = 3\<rparr>"

definition row_C :: batting_row where
  "row_C = \<lparr>batting_row.Player = ''C'', Team = ''TeamX'', Runs = 80,
            Average = Finite False 20 0, Strike_Rate = Finite False 140 0,
            Fours = 9, Sixes = 2\<rparr>"

definition bowler_P :: bowling_row where
  "bowler_P = \<lparr>bowling_row.Player = ''P'', Team = ''TeamX'', Wickets = 12,
               Economy = Finite False 33 (- 2), Average = Finite False 21 0,
               Strike_Rate = Finite False 31 (- 1)\<rparr>"

definition bowler_Q :: bowling_row where
  "bowler_Q = \<lparr>bowling_row.Player = ''Q'', Team = ''TeamY'', Wickets = 25,
               Economy = Finite False 15 (- 1), Average = Finite False 18 0,
               Strike_Rate = Finite False 14 0\<rparr>"

definition fielder_F :: fielding_row where
  "fielder_F = \<lparr>fielding_row.Player = ''F'', Team = ''TeamY'', Catches = 9, Matches = 14\<rparr>"

definition fielder_G :: fielding_row where
  "fielder_G = \<lparr>fielding_row.Player = ''G'', Team = ''TeamX'', Catches = 9, Matches = 12\<rparr>"

definition team_X :: team_row where
  "team_X = \<lparr>Position = 1, Team = ''TX'', Points = 19, NRR = Finite False 5 (- 4),
             Total_Runs = 2900, Won = 9, Lost = 4, Highest_Total = 231\<rparr>"

definition team_Y :: team_row where
  "team_Y = \<lparr>Position = 2, Team = ''TEAMY'', Points = 8, NRR = Finite True 3 (- 4),
             Total_Runs = 2500, Won = 4, Lost = 10, Highest_Total = 205\<rparr>"

text \<open>All four frames loaded; the team frame is stored with position 2 before position 1.\<close>

definition loaded_example :: analyzer where
  "loaded_example =
     \<lparr>batting_df = Some [row_A, row_B, row_C], bowling_df = Some [bowler_P, bowler_Q],
      fielding_df = Some [fielder_F, fielder_G], team_df = Some [team_Y, team_X]\<rparr>"

text \<open>The same with the team frame stored in the order of the positions.\<close>

definition ordered_example :: analyzer where
  "ordered_example = loaded_example\<lparr>team_df := Some [team_X, team_Y]\<rparr>"

text \<open>Every file holds its header line only.\<close>

definition empty_example :: analyzer where
  "empty_example =
     \<lparr>batting_df = Some [], bowling_df = Some [], fielding_df = Some [], team_df = Some []\<rparr>"

text \<open>
  The Kelvin sign, U+212A, in UTF-8, and the case mapping of Python as far as the
  examples consult it: \<open>lower()\<close> turns the Kelvin sign into the letter \<open>k\<close>, while
  \<open>upper()\<close> and \<open>capitalize()\<close> leave it as it is.
\<close>

definition kelvin :: string where
  "kelvin = [CHR 0xE2, CHR 0x84, CHR 0xAA]"

definition kelvin_case :: case_mapping where
  "kelvin_case =
     \<lparr>lower_text = (\<lambda>s. if s = kelvin then ''k'' else s),
      upper_text = (\<lambda>s. s),
      capitalize_text = (\<lambda>s. s)\<rparr>"

text \<open>The working directory without the fielding file.\<close>

definition files_without_fielding :: files where
  "files_without_fielding =
     \<lparr>batting_csv = Parsed [row_A, row_B, row_C], bowling_csv = Parsed [bowler_P, bowler_Q],
      fielding_csv = Missing, team_csv = Parsed [team_Y, team_X]\<rparr>"

section \<open>Properties\<close>

subsection \<open>Category strings\<close>

lemma lower_char_idem: "lower_char (lower_char c) = lower_char c"
  by (simp add: lower_char_def Let_def)

lemma upper_lower_char: "upper_char (lower_char c) = upper_char c"
  by (simp add: lower_char_def upper_char_def Let_def)

lemma is_ascii_lower_char: "is_ascii c \<Longrightarrow> is_ascii (lower_char c)"
  by (simp add: is_ascii_def lower_char_def Let_def)

lemma list_all_ascii_lower: "list_all is_ascii s \<Longrightarrow> list_all is_ascii (map lower_char s)"
  by (induction s) (simp_all add: is_ascii_lower_char)

lemma str_lower_ascii: "list_all is_ascii s \<Longrightarrow> str_lower U s = map lower_char s"
  by (simp add: str_lower_def)

lemma str_upper_ascii: "list_all is_ascii s \<Longrightarrow> str_upper U s = map upper_char s"
  by (simp add: str_upper_def)

lemma str_lower_idem: "list_all is_ascii s \<Longrightarrow> str_lower U (str_lower U s) = str_lower U s"
  by (simp add: str_lower_def list_all_ascii_lower lower_char_idem)

lemma str_upper_lower: "list_all is_ascii s \<Longrightarrow> str_upper U (str_lower U s) = str_upper U s"
  by (simp add: str_lower_def str_upper_def list_all_ascii_lower upper_lower_char)

lemma str_capitalize_lower:
  "list_all is_ascii s \<Longrightarrow> str_capitalize U (str_lower U s) = str_capitalize U s"
  by (cases s)
    (simp_all add: str_lower_def str_capitalize_def is_ascii_lower_char list_all_ascii_lower
      upper_lower_char lower_char_idem)

lemma ascii_words:
  "list_all is_ascii ''BATTING''" "list_all is_ascii ''batting''"
  "list_all is_ascii ''bowling''" "list_all is_ascii ''fielding''" "list_all is_ascii ''xyz''"
  by code_simp+

lemma lower_words:
  "map lower_char ''BATTING'' = ''batting''" "map lower_char ''batting'' = ''batting''"
  "map lower_char ''bowling'' = ''bowling''" "map lower_char ''fielding'' = ''fielding''"
  "map lower_char ''xyz'' = ''xyz''"
  by code_simp+

lemma upper_words:
  "map upper_char ''batting'' = ''BATTING''" "map upper_char ''bowling'' = ''BOWLING''"
  "map upper_char ''fielding'' = ''FIELDING''" "map upper_char ''xyz'' = ''XYZ''"
  by code_simp+

lemma str_lower_BATTING: "str_lower U ''BATTING'' = ''batting''"
  by (simp only: str_lower_ascii [OF ascii_words(1)] lower_words)

lemma str_lower_batting: "str_lower U ''batting'' = ''batting''"
  by (simp only: str_lower_ascii [OF ascii_words(2)] lower_words)

lemma str_lower_bowling: "str_lower U ''bowling'' = ''bowling''"
  by (simp only: str_lower_ascii [OF ascii_words(3)] lower_words)

lemma str_lower_fielding: "str_lower U ''fielding'' = ''fielding''"
  by (simp only: str_lower_ascii [OF ascii_words(4)] lower_words)

lemma performers_header_lower:
  "list_all is_ascii category \<Longrightarrow>
   performers_header U (str_lower U category) n = performers_header U category n"
  by (simp add: performers_header_def str_upper_lower)

lemma compare_in_lower:
  "list_all is_ascii category \<Longrightarrow>
   compare_in U pl tm vs ms df p1 p2 (str_lower U category)
     = compare_in U pl tm vs ms df p1 p2 category"
  unfolding compare_in_def by (simp only: str_capitalize_lower)

lemma top_performers_lower:
  assumes "list_all is_ascii category"
  shows "top_performers U self category n = top_performers U self (str_lower U category) n"
  unfolding top_performers_def
  by (simp only: str_lower_idem [OF assms] performers_header_lower [OF assms])

lemma compare_players_lower:
  assumes "list_all is_ascii category"
  shows "compare_players U self player1 player2 category
         = compare_players U self player1 player2 (str_lower U category)"
  unfolding compare_players_def
  by (simp only: str_lower_idem [OF assms] compare_in_lower [OF assms])

text \<open>
  Claim C10, as the code has it. On a category string of ASCII characters the category is
  matched without regard to case: \<open>top_performers\<close> and \<open>compare_players\<close> do on the
  string exactly what they do on its lower-case form, in what they print, show and raise;
  so \<open>'BATTING'\<close> is taken as \<open>'batting'\<close>.
\<close>

theorem category_case_insensitive:
  "(list_all is_ascii category \<longrightarrow>
      top_performers U self category n = top_performers U self (str_lower U category) n
      \<and> compare_players U self player1 player2 category
          = compare_players U self player1 player2 (str_lower U category))
   \<and> top_performers U self ''BATTING'' n = top_performers U self ''batting'' n
   \<and> compare_players U self player1 player2 ''BATTING''
       = compare_players U self player1 player2 ''batting''"
  using top_performers_lower [of category U self n]
    compare_players_lower [of category U self player1 player2]
    top_performers_lower [OF ascii_words(1), of U self n]
    compare_players_lower [OF ascii_words(1), of U self player1 player2]
  by (simp add: str_lower_BATTING)

theorem category_case_insensitive_witness:
  "list_all is_ascii ''BATTING''
   \<and> str_lower kelvin_case ''BATTING'' = ''batting''
   \<and> top_performers kelvin_case loaded_example ''BATTING'' 5
       = top_performers kelvin_case loaded_example ''batting'' 5
   \<and> compare_players kelvin_case loaded_example ''A'' ''B'' ''BATTING''
       = compare_players kelvin_case loaded_example ''A'' ''B'' ''batting''"
  using category_case_insensitive
    [of "''BATTING''" kelvin_case loaded_example 5 "''A''" "''B''"]
    ascii_words(1) str_lower_BATTING [of kelvin_case]
  by simp

lemma kelvin_not_ascii: "\<not> list_all is_ascii kelvin"
  by (simp add: kelvin_def is_ascii_def)

lemma kelvin_lower: "str_lower kelvin_case kelvin = ''k''"
  by (simp add: str_lower_def kelvin_not_ascii kelvin_case_def)

lemma kelvin_upper: "str_upper kelvin_case kelvin = kelvin"
  by (simp add: str_upper_def kelvin_not_ascii kelvin_case_def)

lemma k_lower_upper: "str_lower U ''k'' = ''k''" "str_upper U ''k'' = ''K''"
proof -
  have a: "list_all is_ascii ''k''" by code_simp
  have "map lower_char ''k'' = ''k''" "map upper_char ''k'' = ''K''" by code_simp+
  then show "str_lower U ''k'' = ''k''" "str_upper U ''k'' = ''K''"
    by (simp_all only: str_lower_ascii [OF a] str_upper_ascii [OF a])
qed

lemma str_int_5: "str_int 5 = ''5''"
  by code_simp

text \<open>
  Claim C10, as stated, fails on the category that is the Kelvin sign alone. Its
  lower-case form is \<open>k\<close>. Neither is a known category, so \<open>top_performers\<close> prints only
  its header on both; but the header shows \<open>category.upper()\<close>, which is the Kelvin sign
  for the one and the letter \<open>K\<close> for the other.
\<close>

theorem category_case_kelvin:
  "str_lower kelvin_case kelvin = ''k''
   \<and> top_performers kelvin_case loaded_example kelvin 5
       = ([Print (''\<newline>'' @ glowing_star @ '' TOP 5 '' @ kelvin @ '' PERFORMERS''),
           Print (replicate 50 CHR ''-'')], None)
   \<and> top_performers kelvin_case loaded_example (str_lower kelvin_case kelvin) 5
       = ([Print (''\<newline>'' @ glowing_star @ '' TOP 5 K PERFORMERS''),
           Print (replicate 50 CHR ''-'')], None)
   \<and> top_performers kelvin_case loaded_example kelvin 5
       \<noteq> top_performers kelvin_case loaded_example (str_lower kelvin_case kelvin) 5"
proof -
  have 1: "top_performers kelvin_case loaded_example kelvin 5
       = ([Print (''\<newline>'' @ glowing_star @ '' TOP 5 '' @ kelvin @ '' PERFORMERS''),
           Print (replicate 50 CHR ''-'')], None)"
    by (simp add: top_performers_def performers_header_def kelvin_lower kelvin_upper str_int_5)
  have 2: "top_performers kelvin_case loaded_example ''k'' 5
       = ([Print (''\<newline>'' @ glowing_star @ '' TOP 5 K PERFORMERS''),
           Print (replicate 50 CHR ''-'')], None)"
    by (simp add: top_performers_def performers_header_def k_lower_upper str_int_5)
  have 3: "kelvin \<noteq> ''K''" by (simp add: kelvin_def)
  from 1 2 3 show ?thesis by (simp add: kelvin_lower)
qed

subsection \<open>Unrecognised categories\<close>

lemma top_performers_unrecognized:
  assumes "str_lower U category \<noteq> ''batting''" "str_lower U category \<noteq> ''bowling''"
    "str_lower U category \<noteq> ''fielding''"
  shows "top_performers U self category n = (performers_header U category n, None)"
  using assms by (simp add: top_performers_def)

lemma str_lower_xyz: "str_lower U ''xyz'' = ''xyz''"
  by (simp only: str_lower_ascii [OF ascii_words(5)] lower_words)

lemma str_upper_xyz: "str_upper U ''xyz'' = ''XYZ''"
  by (simp only: str_upper_ascii [OF ascii_words(5)] upper_words)

text \<open>
  Claim C7. On the category \<open>'xyz'\<close>, \<open>top_performers\<close> prints its two header lines and
  returns: no frame, no exception, and no message saying that the category is not known.
  \<open>compare_players\<close> on the same category prints such a message
  (\<open>Category must be 'batting' or 'bowling'\<close>): the \<open>else\<close> branch that \<open>top_performers\<close>
  lacks.
\<close>

theorem top_performers_unrecognized_silent:
  "top_performers U self ''xyz'' 5
     = ([Print (''\<newline>'' @ glowing_star @ '' TOP 5 XYZ PERFORMERS''),
         Print (replicate 50 CHR ''-'')], None)
   \<and> compare_players U self player1 player2 ''xyz''
     = ([Print (''Category must be '' @ [CHR 0x27] @ ''batting'' @ [CHR 0x27] @ '' or ''
                @ [CHR 0x27] @ ''bowling'' @ [CHR 0x27])], None)"
  by (simp add: top_performers_def compare_players_def performers_header_def
      str_lower_xyz str_upper_xyz str_int_5)

subsection \<open>Comparing two players\<close>

lemma first_named_absent:
  "name \<notin> player_of ` set df \<Longrightarrow> first_named player_of df name = Inl IndexError"
proof -
  assume "name \<notin> player_of ` set df"
  then have "filter (\<lambda>r. player_of r = name) df = []"
    by (auto simp: filter_empty_conv)
  then show ?thesis by (simp add: first_named_def iloc0_def)
qed

lemma first_named_cases:
  "first_named player_of df name = Inl IndexError \<or> (\<exists>r. first_named player_of df name = Inr r)"
  by (simp add: first_named_def iloc0_def split: list.splits)

lemma compare_in_absent:
  assumes "player1 \<notin> player_of ` set df \<or> player2 \<notin> player_of ` set df"
  shows "compare_in U player_of team_of values_of metrics df player1 player2 category
         = ([Print ''One or both players not found in the dataset''], None)"
proof (cases "player1 \<in> player_of ` set df")
  case False
  then show ?thesis
    by (simp add: compare_in_def first_named_absent and_then_def)
next
  case True
  with assms have "player2 \<notin> player_of ` set df" by blast
  then have 2: "first_named player_of df player2 = Inl IndexError"
    by (rule first_named_absent)
  from first_named_cases [of player_of df player1] show ?thesis
    by (auto simp: compare_in_def and_then_def 2)
qed

text \<open>
  Claim C4. With the category batting or bowling and the chosen frame loaded, if either
  name equals the \<open>Player\<close> field of no row of that frame, \<open>compare_players\<close> prints
  \<open>One or both players not found in the dataset\<close> and returns: this message is all it
  emits, so no chart is shown, and no exception leaves the method.
\<close>

theorem compare_players_not_found:
  "(str_lower U category = ''batting'' \<longrightarrow> batting_df self = Some b \<longrightarrow>
      (player1 \<notin> batting_row.Player ` set b \<or> player2 \<notin> batting_row.Player ` set b) \<longrightarrow>
      compare_players U self player1 player2 category
        = ([Print ''One or both players not found in the dataset''], None))
   \<and> (str_lower U category = ''bowling'' \<longrightarrow> bowling_df self = Some w \<longrightarrow>
      (player1 \<notin> bowling_row.Player ` set w \<or> player2 \<notin> bowling_row.Player ` set w) \<longrightarrow>
      compare_players U self player1 player2 category
        = ([Print ''One or both players not found in the dataset''], None))"
  by (simp add: compare_players_def attr_def compare_in_absent)

theorem compare_players_not_found_witness:
  "str_lower kelvin_case ''batting'' = ''batting'' \<and> batting_df loaded_example = Some [row_A, row_B, row_C]
   \<and> ''Z'' \<notin> batting_row.Player ` set [row_A, row_B, row_C]
   \<and> compare_players kelvin_case loaded_example ''Z'' ''B'' ''batting''
        = ([Print ''One or both players not found in the dataset''], None)
   \<and> str_lower kelvin_case ''bowling'' = ''bowling'' \<and> bowling_df loaded_example = Some [bowler_P, bowler_Q]
   \<and> ''Z'' \<notin> bowling_row.Player ` set [bowler_P, bowler_Q]
   \<and> compare_players kelvin_case loaded_example ''Q'' ''Z'' ''bowling''
        = ([Print ''One or both players not found in the dataset''], None)"
proof -
  have b: "batting_df loaded_example = Some [row_A, row_B, row_C]"
    and w: "bowling_df loaded_example = Some [bowler_P, bowler_Q]"
    by (simp_all add: loaded_example_def)
  have zb: "''Z'' \<notin> batting_row.Player ` set [row_A, row_B, row_C]"
    by (simp add: row_A_def row_B_def row_C_def)
  have zw: "''Z'' \<notin> bowling_row.Player ` set [bowler_P, bowler_Q]"
    by (simp add: bowler_P_def bowler_Q_def)
  from compare_players_not_found
    [of kelvin_case "''batting''" loaded_example "[row_A, row_B, row_C]" "''Z''" "''B''"
        "[bowler_P, bowler_Q]"]
    compare_players_not_found
    [of kelvin_case "''bowling''" loaded_example "[row_A, row_B, row_C]" "''Q''" "''Z''"
        "[bowler_P, bowler_Q]"]
    b w zb zw str_lower_batting [of kelvin_case] str_lower_bowling [of kelvin_case]
  show ?thesis by blast
qed

lemma first_named_find:
  "first_named player_of df name =
     (case find (\<lambda>r. player_of r = name) df of None \<Rightarrow> Inl IndexError | Some r \<Rightarrow> Inr r)"
  by (induction df) (simp_all add: first_named_def iloc0_def)

lemma find_present:
  "name \<in> player_of ` set df \<Longrightarrow> \<exists>r. find (\<lambda>r. player_of r = name) df = Some r"
  by (cases "find (\<lambda>r. player_of r = name) df") (auto simp: find_None_iff)

lemma compare_in_found:
  assumes "find (\<lambda>r. player_of r = player1) df = Some r1"
    and "find (\<lambda>r. player_of r = player2) df = Some r2"
  shows "compare_in U player_of team_of values_of metrics df player1 player2 category
         = ([ShowChart (side_by_side U category metrics
                          (player1, team_of r1, values_of r1)
                          (player2, team_of r2, values_of r2))], None)"
  using assms by (simp add: compare_in_def first_named_find and_then_def side_by_side_def)

lemma compare_in_present:
  assumes "player1 \<in> player_of ` set df" and "player2 \<in> player_of ` set df"
  shows "\<exists>r1 r2. find (\<lambda>r. player_of r = player1) df = Some r1
           \<and> find (\<lambda>r. player_of r = player2) df = Some r2
           \<and> compare_in U player_of team_of values_of metrics df player1 player2 category
               = ([ShowChart (side_by_side U category metrics
                                (player1, team_of r1, values_of r1)
                                (player2, team_of r2, values_of r2))], None)
           \<and> compare_in U player_of team_of values_of metrics df player2 player1 category
               = ([ShowChart (side_by_side U category metrics
                                (player2, team_of r2, values_of r2)
                                (player1, team_of r1, values_of r1))], None)"
proof -
  from find_present [OF assms(1)] obtain r1
    where 1: "find (\<lambda>r. player_of r = player1) df = Some r1" ..
  from find_present [OF assms(2)] obtain r2
    where 2: "find (\<lambda>r. player_of r = player2) df = Some r2" ..
  show ?thesis
    using 1 2 compare_in_found [OF 1 2] compare_in_found [OF 2 1] by blast
qed

text \<open>
  Claim C9. With both names present in the chosen frame, \<open>compare_players\<close> shows one
  chart that pairs, for each player, the name with the team and the metric values of the
  first row whose \<open>Player\<close> field equals the name (\<open>find\<close> returns that row). Calling it
  with the two names exchanged shows the same chart with the two sides exchanged, each
  player keeping the same row and so the same values.
\<close>

theorem compare_players_swap:
  "(str_lower U category = ''batting'' \<longrightarrow> batting_df self = Some b \<longrightarrow>
      player1 \<in> batting_row.Player ` set b \<longrightarrow> player2 \<in> batting_row.Player ` set b \<longrightarrow>
      (\<exists>r1 r2. find (\<lambda>r. batting_row.Player r = player1) b = Some r1
         \<and> find (\<lambda>r. batting_row.Player r = player2) b = Some r2
         \<and> compare_players U self player1 player2 category
             = ([ShowChart (side_by_side U category batting_metrics
                              (player1, batting_row.Team r1, batting_values r1)
                              (player2, batting_row.Team r2, batting_values r2))], None)
         \<and> compare_players U self player2 player1 category
             = ([ShowChart (side_by_side U category batting_metrics
                              (player2, batting_row.Team r2, batting_values r2)
                              (player1, batting_row.Team r1, batting_values r1))], None)))
   \<and> (str_lower U category = ''bowling'' \<longrightarrow> bowling_df self = Some w \<longrightarrow>
      player1 \<in> bowling_row.Player ` set w \<longrightarrow> player2 \<in> bowling_row.Player ` set w \<longrightarrow>
      (\<exists>r1 r2. find (\<lambda>r. bowling_row.Player r = player1) w = Some r1
         \<and> find (\<lambda>r. bowling_row.Player r = player2) w = Some r2
         \<and> compare_players U self player1 player2 category
             = ([ShowChart (side_by_side U category bowling_metrics
                              (player1, bowling_row.Team r1, bowling_values r1)
                              (player2, bowling_row.Team r2, bowling_values r2))], None)
         \<and> compare_players U self player2 player1 category
             = ([ShowChart (side_by_side U category bowling_metrics
                              (player2, bowling_row.Team r2, bowling_values r2)
                              (player1, bowling_row.Team r1, bowling_values r1))], None)))"
proof (intro conjI impI)
  assume "str_lower U category = ''batting''" "batting_df self = Some b"
    "player1 \<in> batting_row.Player ` set b" "player2 \<in> batting_row.Player ` set b"
  then show "\<exists>r1 r2. find (\<lambda>r. batting_row.Player r = player1) b = Some r1
         \<and> find (\<lambda>r. batting_row.Player r = player2) b = Some r2
         \<and> compare_players U self player1 player2 category
             = ([ShowChart (side_by_side U category batting_metrics
                              (player1, batting_row.Team r1, batting_values r1)
                              (player2, batting_row.Team r2, batting_values r2))], None)
         \<and> compare_players U self player2 player1 category
             = ([ShowChart (side_by_side U category batting_metrics
                              (player2, batting_row.Team r2, batting_values r2)
                              (player1, batting_row.Team r1, batting_values r1))], None)"
    using compare_in_present [of player1 batting_row.Player b player2 U batting_row.Team
        batting_values batting_metrics category]
    by (simp add: compare_players_def attr_def)
next
  assume "str_lower U category = ''bowling''" "bowling_df self = Some w"
    "player1 \<in> bowling_row.Player ` set w" "player2 \<in> bowling_row.Player ` set w"
  then show "\<exists>r1 r2. find (\<lambda>r. bowling_row.Player r = player1) w = Some r1
         \<and> find (\<lambda>r. bowling_row.Player r = player2) w = Some r2
         \<and> compare_players U self player1 player2 category
             = ([ShowChart (side_by_side U category bowling_metrics
                              (player1, bowling_row.Team r1, bowling_values r1)
                              (player2, bowling_row.Team r2, bowling_values r2))], None)
         \<and> compare_players U self player2 player1 category
             = ([ShowChart (side_by_side U category bowling_metrics
                              (player2, bowling_row.Team r2, bowling_values r2)
                              (player1, bowling_row.Team r1, bowling_values r1))], None)"
    using compare_in_present [of player1 bowling_row.Player w player2 U bowling_row.Team
        bowling_values bowling_metrics category]
    by (simp add: compare_players_def attr_def)
qed

theorem compare_players_swap_witness:
  "str_lower kelvin_case ''batting'' = ''batting''
   \<and> batting_df loaded_example = Some [row_A, row_B, row_C]
   \<and> ''C'' \<in> batting_row.Player ` set [row_A, row_B, row_C]
   \<and> ''A'' \<in> batting_row.Player ` set [row_A, row_B, row_C]
   \<and> compare_players kelvin_case loaded_example ''C'' ''A'' ''batting''
       = ([ShowChart (side_by_side kelvin_case ''batting'' batting_metrics
                        (''C'', ''TeamX'', batting_values row_C)
                        (''A'', ''TeamX'', batting_values row_A))], None)
   \<and> compare_players kelvin_case loaded_example ''A'' ''C'' ''batting''
       = ([ShowChart (side_by_side kelvin_case ''batting'' batting_metrics
                        (''A'', ''TeamX'', batting_values row_A)
                        (''C'', ''TeamX'', batting_values row_C))], None)
   \<and> str_lower kelvin_case ''bowling'' = ''bowling''
   \<and> bowling_df loaded_example = Some [bowler_P, bowler_Q]
   \<and> ''P'' \<in> bowling_row.Player ` set [bowler_P, bowler_Q]
   \<and> ''Q'' \<in> bowling_row.Player ` set [bowler_P, bowler_Q]
   \<and> compare_players kelvin_case loaded_example ''P'' ''Q'' ''bowling''
       = ([ShowChart (side_by_side kelvin_case ''bowling'' bowling_metrics
                        (''P'', ''TeamX'', bowling_values bowler_P)
                        (''Q'', ''TeamY'', bowling_values bowler_Q))], None)
   \<and> compare_players kelvin_case loaded_example ''Q'' ''P'' ''bowling''
       = ([ShowChart (side_by_side kelvin_case ''bowling'' bowling_metrics
                        (''Q'', ''TeamY'', bowling_values bowler_Q)
                        (''P'', ''TeamX'', bowling_values bowler_P))], None)"
proof -
  have b: "batting_df loaded_example = Some [row_A, row_B, row_C]"
    and w: "bowling_df loaded_example = Some [bowler_P, bowler_Q]"
    by (simp_all add: loaded_example_def)
  have inb: "''C'' \<in> batting_row.Player ` set [row_A, row_B, row_C]"
    "''A'' \<in> batting_row.Player ` set [row_A, row_B, row_C]"
    by (simp_all add: row_A_def row_B_def row_C_def)
  have inw: "''P'' \<in> bowling_row.Player ` set [bowler_P, bowler_Q]"
    "''Q'' \<in> bowling_row.Player ` set [bowler_P, bowler_Q]"
    by (simp_all add: bowler_P_def bowler_Q_def)
  have fb: "find (\<lambda>r. batting_row.Player r = ''C'') [row_A, row_B, row_C] = Some row_C"
    "find (\<lambda>r. batting_row.Player r = ''A'') [row_A, row_B, row_C] = Some row_A"
    by (simp_all add: row_A_def row_B_def row_C_def)
  have fw: "find (\<lambda>r. bowling_row.Player r = ''P'') [bowler_P, bowler_Q] = Some bowler_P"
    "find (\<lambda>r. bowling_row.Player r = ''Q'') [bowler_P, bowler_Q] = Some bowler_Q"
    by (simp_all add: bowler_P_def bowler_Q_def)
  have tm: "batting_row.Team row_C = ''TeamX''" "batting_row.Team row_A = ''TeamX''"
    "bowling_row.Team bowler_P = ''TeamX''" "bowling_row.Team bowler_Q = ''TeamY''"
    by (simp_all add: row_A_def row_C_def bowler_P_def bowler_Q_def)
  from compare_players_swap
    [of kelvin_case "''batting''" loaded_example "[row_A, row_B, row_C]" "''C''" "''A''"
        "[bowler_P, bowler_Q]", THEN conjunct1, rule_format,
     OF str_lower_batting b inb(1) inb(2)]
  obtain r1 r2 where
    "find (\<lambda>r. batting_row.Player r = ''C'') [row_A, row_B, row_C] = Some r1"
    "find (\<lambda>r. batting_row.Player r = ''A'') [row_A, row_B, row_C] = Some r2"
    "compare_players kelvin_case loaded_example ''C'' ''A'' ''batting''
       = ([ShowChart (side_by_side kelvin_case ''batting'' batting_metrics
                        (''C'', batting_row.Team r1, batting_values r1)
                        (''A'', batting_row.Team r2, batting_values r2))], None)"
    "compare_players kelvin_case loaded_example ''A'' ''C'' ''batting''
       = ([ShowChart (side_by_side kelvin_case ''batting'' batting_metrics
                        (''A'', batting_row.Team r2, batting_values r2)
                        (''C'', batting_row.Team r1, batting_values r1))], None)"
    by blast
  then have 1: "compare_players kelvin_case loaded_example ''C'' ''A'' ''batting''
       = ([ShowChart (side_by_side kelvin_case ''batting'' batting_metrics
                        (''C'', ''TeamX'', batting_values row_C)
                        (''A'', ''TeamX'', batting_values row_A))], None)
   \<and> compare_players kelvin_case loaded_example ''A'' ''C'' ''batting''
       = ([ShowChart (side_by_side kelvin_case ''batting'' batting_metrics
                        (''A'', ''TeamX'', batting_values row_A)
                        (''C'', ''TeamX'', batting_values row_C))], None)"
    unfolding fb using tm by auto
  from compare_players_swap
    [of kelvin_case "''bowling''" loaded_example "[row_A, row_B, row_C]" "''P''" "''Q''"
        "[bowler_P, bowler_Q]", THEN conjunct2, rule_format,
     OF str_lower_bowling w inw(1) inw(2)]
  obtain q1 q2 where
    "find (\<lambda>r. bowling_row.Player r = ''P'') [bowler_P, bowler_Q] = Some q1"
    "find (\<lambda>r. bowling_row.Player r = ''Q'') [bowler_P, bowler_Q] = Some q2"
    "compare_players kelvin_case loaded_example ''P'' ''Q'' ''bowling''
       = ([ShowChart (side_by_side kelvin_case ''bowling'' bowling_metrics
                        (''P'', bowling_row.Team q1, bowling_values q1)
                        (''Q'', bowling_row.Team q2, bowling_values q2))], None)"
    "compare_players kelvin_case loaded_example ''Q'' ''P'' ''bowling''
       = ([ShowChart (side_by_side kelvin_case ''bowling'' bowling_metrics
                        (''Q'', bowling_row.Team q2, bowling_values q2)
                        (''P'', bowling_row.Team q1, bowling_values q1))], None)"
    by blast
  then have 2: "compare_players kelvin_case loaded_example ''P'' ''Q'' ''bowling''
       = ([ShowChart (side_by_side kelvin_case ''bowling'' bowling_metrics
                        (''P'', ''TeamX'', bowling_values bowler_P)
                        (''Q'', ''TeamY'', bowling_values bowler_Q))], None)
   \<and> compare_players kelvin_case loaded_example ''Q'' ''P'' ''bowling''
       = ([ShowChart (side_by_side kelvin_case ''bowling'' bowling_metrics
                        (''Q'', ''TeamY'', bowling_values bowler_Q)
                        (''P'', ''TeamX'', bowling_values bowler_P))], None)"
    unfolding fw using tm by auto
  from 1 2 b w inb inw str_lower_batting str_lower_bowling show ?thesis by blast
qed

subsection \<open>Loading with a file missing\<close>

lemma load_data_missing_batting:
  "batting_csv fs = Missing \<Longrightarrow>
   load_data fs self = (not_found_report ''ipl_2025_batting_stats.csv'', Inr self)"
  by (simp add: load_data_def read_csv_def load_except_def)

lemma load_data_missing_bowling:
  "batting_csv fs = Parsed b \<Longrightarrow> bowling_csv fs = Missing \<Longrightarrow>
   load_data fs self
     = (not_found_report ''ipl_2025_bowling_stats.csv'', Inr (self\<lparr>batting_df := Some b\<rparr>))"
  by (simp add: load_data_def read_csv_def load_except_def)

lemma load_data_missing_fielding:
  "batting_csv fs = Parsed b \<Longrightarrow> bowling_csv fs = Parsed w \<Longrightarrow> fielding_csv fs = Missing \<Longrightarrow>
   load_data fs self
     = (not_found_report ''ipl_2025_fielding_stats.csv'',
        Inr (self\<lparr>batting_df := Some b, bowling_df := Some w\<rparr>))"
  by (simp add: load_data_def read_csv_def load_except_def)

lemma load_data_missing_team:
  "batting_csv fs = Parsed b \<Longrightarrow> bowling_csv fs = Parsed w \<Longrightarrow> fielding_csv fs = Parsed f \<Longrightarrow>
   team_csv fs = Missing \<Longrightarrow>
   load_data fs self
     = (not_found_report ''ipl_2025_team_stats.csv'',
        Inr (self\<lparr>batting_df := Some b, bowling_df := Some w, fielding_df := Some f\<rparr>))"
  by (simp add: load_data_def read_csv_def load_except_def)

text \<open>
  The constructor returns an analyzer only when all four attributes are assigned: after
  a load that left one unassigned it raises \<open>AttributeError\<close>.
\<close>

lemma init_returns_only_loaded:
  assumes "init fs = (outs, Inr self)"
  shows "batting_df self \<noteq> None \<and> bowling_df self \<noteq> None
         \<and> fielding_df self \<noteq> None \<and> team_df self \<noteq> None"
  using assms
  by (auto simp: init_def Let_def and_then_def attr_def
      split: prod.splits sum.splits option.splits)

lemma init_missing_file_raises:
  assumes "batting_csv fs = Missing
           \<or> (\<exists>b. batting_csv fs = Parsed b \<and> (bowling_csv fs = Missing
                \<or> (\<exists>w. bowling_csv fs = Parsed w \<and> (fielding_csv fs = Missing
                     \<or> (\<exists>f. fielding_csv fs = Parsed f \<and> team_csv fs = Missing)))))"
  shows "\<exists>outs name. init fs = (outs, Inl (AttributeError name))"
  using assms
  by (auto simp: init_def Let_def and_then_def attr_def unloaded_def
      load_data_missing_batting load_data_missing_bowling load_data_missing_fielding
      load_data_missing_team)

lemma str_nat_sizes:
  "str_nat (Suc (Suc (Suc 0))) = ''3''" "str_nat (Suc (Suc 0)) = ''2''"
proof -
  have "str_nat 3 = ''3''" "str_nat 2 = ''2''" by code_simp+
  then show "str_nat (Suc (Suc (Suc 0))) = ''3''" "str_nat (Suc (Suc 0)) = ''2''"
    by (simp_all add: numeral_3_eq_3 numeral_2_eq_2)
qed

text \<open>
  Claim C3. Without the fielding file, \<open>load_data\<close> catches the \<open>FileNotFoundError\<close>,
  reports it on the console and returns with \<open>fielding_df\<close> and \<open>team_df\<close> unassigned. The
  constructor then prints its first two messages and, reading the size of the fielding
  frame for the third, raises \<open>AttributeError\<close>: no analyzer comes to exist on which
  \<open>top_performers('fielding', 5)\<close> could return an empty result.
\<close>

theorem init_raises_after_missing_file:
  "load_data files_without_fielding unloaded
     = (not_found_report ''ipl_2025_fielding_stats.csv'',
        Inr \<lparr>batting_df = Some [row_A, row_B, row_C], bowling_df = Some [bowler_P, bowler_Q],
             fielding_df = None, team_df = None\<rparr>)
   \<and> init files_without_fielding
     = (not_found_report ''ipl_2025_fielding_stats.csv''
        @ [Print (cricket @ '' IPL 2025 Statistics Analyzer Initialized!''),
           Print (bar_chart @ '' Loaded data for 3 batsmen, 2 bowlers'')],
        Inl (AttributeError ''fielding_df''))"
proof -
  have f: "batting_csv files_without_fielding = Parsed [row_A, row_B, row_C]"
    "bowling_csv files_without_fielding = Parsed [bowler_P, bowler_Q]"
    "fielding_csv files_without_fielding = Missing"
    by (simp_all add: files_without_fielding_def)
  note l = load_data_missing_fielding [OF f, of unloaded]
  have i: "init files_without_fielding
     = (not_found_report ''ipl_2025_fielding_stats.csv''
        @ [Print (cricket @ '' IPL 2025 Statistics Analyzer Initialized!''),
           Print (bar_chart @ '' Loaded data for 3 batsmen, 2 bowlers'')],
        Inl (AttributeError ''fielding_df''))"
    unfolding init_def l
    by (simp add: and_then_def attr_def unloaded_def Let_def str_nat_sizes)
  from l i show ?thesis by (simp add: unloaded_def)
qed

subsection \<open>The standings of the summary\<close>


lemma sort_key_sorted_id: "sorted (map f xs) \<Longrightarrow> sort_key f xs = xs"
  by (induction xs) (auto simp: insort_is_Cons)


lemma awards_loaded_example:
  "individual_awards loaded_example = Inr (row_B, bowler_Q, fielder_F)"
  by (simp add: individual_awards_def loaded_example_def attr_def and_then_def award_def
      idxmax_def loc_def row_A_def row_B_def row_C_def bowler_P_def bowler_Q_def
      fielder_F_def fielder_G_def)

lemma awards_ordered_example:
  "individual_awards ordered_example = Inr (row_B, bowler_Q, fielder_F)"
  using awards_loaded_example
  by (simp add: individual_awards_def ordered_example_def)



subsection \<open>The report and the clock\<close>

lemma length_report_head: "length (report_head stamp) = 9"
  by (simp add: report_head_def)

lemma written_generate_report:
  "written (generate_report self filename stamp)
     = report_head stamp @ drop 9 (written (generate_report self filename []))"
  by (simp add: generate_report_def Let_def length_report_head split: sum.splits)

lemma report_head_stamp:
  "report_head stamp = take 2 (report_head stamp') @ [''Generated on: '' @ stamp @ ''\<newline>\<newline>'']
     @ drop 3 (report_head stamp')"
  by (simp add: report_head_def)

text \<open>
  Claim C8. Two runs of \<open>generate_report\<close> on the same frames, at different times, write
  the same strings except for the third one, the line \<open>Generated on: \<dots>\<close> with the time
  stamp; so the two files agree before and after that line. They print the same on the
  console and raise the same exception, if any.
\<close>

theorem generate_report_deterministic:
  "written (generate_report self filename stamp)
     = take 2 (written (generate_report self filename stamp'))
       @ [''Generated on: '' @ stamp @ ''\<newline>\<newline>'']
       @ drop 3 (written (generate_report self filename stamp'))
   \<and> file_text (generate_report self filename stamp)
     = concat (take 2 (written (generate_report self filename stamp')))
       @ ''Generated on: '' @ stamp @ ''\<newline>\<newline>''
       @ concat (drop 3 (written (generate_report self filename stamp')))
   \<and> printed (generate_report self filename stamp)
     = printed (generate_report self filename stamp')
   \<and> raised (generate_report self filename stamp)
     = raised (generate_report self filename stamp')"
proof -
  define rest where "rest = drop 9 (written (generate_report self filename []))"
  have w: "written (generate_report self filename s) = report_head s @ rest" for s
    unfolding rest_def by (rule written_generate_report)
  note len = length_report_head
  have 1: "written (generate_report self filename stamp)
     = take 2 (written (generate_report self filename stamp'))
       @ [''Generated on: '' @ stamp @ ''\<newline>\<newline>'']
       @ drop 3 (written (generate_report self filename stamp'))"
    unfolding w using report_head_stamp [of stamp stamp'] by (simp add: len)
  have 2: "file_text (generate_report self filename stamp)
     = concat (take 2 (written (generate_report self filename stamp')))
       @ ''Generated on: '' @ stamp @ ''\<newline>\<newline>''
       @ concat (drop 3 (written (generate_report self filename stamp')))"
    unfolding file_text_def by (subst 1) simp
  have 3: "printed (generate_report self filename stamp)
     = printed (generate_report self filename stamp')"
    "raised (generate_report self filename stamp)
     = raised (generate_report self filename stamp')"
    by (auto simp: generate_report_def Let_def split: sum.splits)
  from 1 2 3 show ?thesis by blast
qed

subsection \<open>The award rows\<close>

lemma argmax_from_scan:
  assumes "bi < length pre" and "bv = pre ! bi" and "i = length pre"
    and "\<forall>j<length pre. pre ! j \<le> bv" and "\<forall>j<bi. pre ! j < bv"
  shows "argmax_from bi bv i xs < length (pre @ xs)
         \<and> (\<forall>j<length (pre @ xs). (pre @ xs) ! j \<le> (pre @ xs) ! argmax_from bi bv i xs)
         \<and> (\<forall>j<argmax_from bi bv i xs. (pre @ xs) ! j < (pre @ xs) ! argmax_from bi bv i xs)"
  using assms
proof (induction xs arbitrary: pre bi bv i)
  case Nil
  then show ?case by simp
next
  case (Cons x xs)
  show ?case
  proof (cases "bv < x")
    case True
    have "argmax_from i x (Suc i) xs < length ((pre @ [x]) @ xs)
         \<and> (\<forall>j<length ((pre @ [x]) @ xs).
               ((pre @ [x]) @ xs) ! j \<le> ((pre @ [x]) @ xs) ! argmax_from i x (Suc i) xs)
         \<and> (\<forall>j<argmax_from i x (Suc i) xs.
               ((pre @ [x]) @ xs) ! j < ((pre @ [x]) @ xs) ! argmax_from i x (Suc i) xs)"
    proof (rule Cons.IH)
      show "i < length (pre @ [x])" using Cons.prems by simp
      show "x = (pre @ [x]) ! i" using Cons.prems by simp
      show "Suc i = length (pre @ [x])" using Cons.prems by simp
      show "\<forall>j<length (pre @ [x]). (pre @ [x]) ! j \<le> x"
        using Cons.prems True by (auto simp: nth_append less_Suc_eq)
      show "\<forall>j<i. (pre @ [x]) ! j < x"
        using Cons.prems True by (auto simp: nth_append)
    qed
    with True show ?thesis by simp
  next
    case False
    have "argmax_from bi bv (Suc i) xs < length ((pre @ [x]) @ xs)
         \<and> (\<forall>j<length ((pre @ [x]) @ xs).
               ((pre @ [x]) @ xs) ! j \<le> ((pre @ [x]) @ xs) ! argmax_from bi bv (Suc i) xs)
         \<and> (\<forall>j<argmax_from bi bv (Suc i) xs.
               ((pre @ [x]) @ xs) ! j < ((pre @ [x]) @ xs) ! argmax_from bi bv (Suc i) xs)"
    proof (rule Cons.IH)
      show "bi < length (pre @ [x])" using Cons.prems by simp
      show "bv = (pre @ [x]) ! bi" using Cons.prems by (simp add: nth_append)
      show "Suc i = length (pre @ [x])" using Cons.prems by simp
      show "\<forall>j<length (pre @ [x]). (pre @ [x]) ! j \<le> bv"
        using Cons.prems False by (auto simp: nth_append less_Suc_eq)
      show "\<forall>j<bi. (pre @ [x]) ! j < bv"
        using Cons.prems by (auto simp: nth_append)
    qed
    with False show ?thesis by simp
  qed
qed

lemma idxmax_first_max:
  assumes "xs \<noteq> []"
  shows "\<exists>i. idxmax xs = Inr i \<and> i < length xs \<and> (\<forall>j<length xs. xs ! j \<le> xs ! i)
           \<and> (\<forall>j<i. xs ! j < xs ! i)"
proof -
  from assms obtain x rest where xs: "xs = x # rest" by (cases xs) auto
  have "argmax_from 0 x 1 rest < length ([x] @ rest)
         \<and> (\<forall>j<length ([x] @ rest). ([x] @ rest) ! j \<le> ([x] @ rest) ! argmax_from 0 x 1 rest)
         \<and> (\<forall>j<argmax_from 0 x 1 rest. ([x] @ rest) ! j < ([x] @ rest) ! argmax_from 0 x 1 rest)"
    by (rule argmax_from_scan) simp_all
  then show ?thesis by (simp add: idxmax_def xs)
qed

lemma award_first_max:
  assumes "df \<noteq> []"
  shows "\<exists>i. award col df = Inr (df ! i) \<and> first_max_at col df i"
proof -
  from assms have "map col df \<noteq> []" by simp
  from idxmax_first_max [OF this] obtain i where
    i: "idxmax (map col df) = Inr i" "i < length df"
      "\<forall>j<length df. map col df ! j \<le> map col df ! i" "\<forall>j<i. map col df ! j < map col df ! i"
    by auto
  then have "first_max_at col df i" by (simp add: first_max_at_def)
  moreover have "award col df = Inr (df ! i)"
    using i by (simp add: award_def and_then_def loc_def)
  ultimately show ?thesis by blast
qed

lemma first_max_at_unique:
  "first_max_at col df i \<Longrightarrow> first_max_at col df j \<Longrightarrow> i = j"
  unfolding first_max_at_def by (metis linorder_neqE_nat not_less)

text \<open>
  Claim C2. With the batting, bowling and fielding frames loaded and not empty, the three
  award rows are rows of their frames that hold the maximum of \<open>Runs\<close>, \<open>Wickets\<close> and
  \<open>Catches\<close>, and each is the first row of its frame to hold it. These are the rows that
  \<open>display_summary\<close> prints after its banner and that \<open>generate_report\<close> writes after
  the head of the report.
\<close>

theorem award_rows_are_first_maxima:
  "batting_df self = Some b \<longrightarrow> b \<noteq> [] \<longrightarrow> bowling_df self = Some w \<longrightarrow> w \<noteq> [] \<longrightarrow>
   fielding_df self = Some f \<longrightarrow> f \<noteq> [] \<longrightarrow>
   (\<exists>i j k. first_max_at Runs b i \<and> first_max_at Wickets w j \<and> first_max_at Catches f k
      \<and> individual_awards self = Inr (b ! i, w ! j, f ! k)
      \<and> (\<exists>rest e. display_summary self
                    = (summary_banner @ award_prints (b ! i, w ! j, f ! k) @ rest, e))
      \<and> (\<exists>rest. written (generate_report self filename stamp)
                  = report_head stamp @ award_writes (b ! i, w ! j, f ! k) @ rest))"
proof (intro impI)
  assume b: "batting_df self = Some b" "b \<noteq> []"
    and w: "bowling_df self = Some w" "w \<noteq> []"
    and f: "fielding_df self = Some f" "f \<noteq> []"
  from award_first_max [OF b(2), of Runs] obtain i
    where i: "award Runs b = Inr (b ! i)" "first_max_at Runs b i" by blast
  from award_first_max [OF w(2), of Wickets] obtain j
    where j: "award Wickets w = Inr (w ! j)" "first_max_at Wickets w j" by blast
  from award_first_max [OF f(2), of Catches] obtain k
    where k: "award Catches f = Inr (f ! k)" "first_max_at Catches f k" by blast
  have a: "individual_awards self = Inr (b ! i, w ! j, f ! k)"
    by (simp add: individual_awards_def attr_def and_then_def b w f i j k)
  have d: "\<exists>rest e. display_summary self
                    = (summary_banner @ award_prints (b ! i, w ! j, f ! k) @ rest, e)"
    by (cases "team_df self") (simp_all add: display_summary_def a)
  have g: "\<exists>rest. written (generate_report self filename stamp)
                  = report_head stamp @ award_writes (b ! i, w ! j, f ! k) @ rest"
    by (simp add: generate_report_def a Let_def attr_def and_then_def nlargest_def b w
        split: option.splits)
  from i j k a d g show "\<exists>i j k. first_max_at Runs b i \<and> first_max_at Wickets w j
      \<and> first_max_at Catches f k
      \<and> individual_awards self = Inr (b ! i, w ! j, f ! k)
      \<and> (\<exists>rest e. display_summary self
                    = (summary_banner @ award_prints (b ! i, w ! j, f ! k) @ rest, e))
      \<and> (\<exists>rest. written (generate_report self filename stamp)
                  = report_head stamp @ award_writes (b ! i, w ! j, f ! k) @ rest)"
    by blast
qed


theorem award_rows_are_first_maxima_witness:
  "batting_df loaded_example = Some [row_A, row_B, row_C] \<and> [row_A, row_B, row_C] \<noteq> []
   \<and> bowling_df loaded_example = Some [bowler_P, bowler_Q] \<and> [bowler_P, bowler_Q] \<noteq> []
   \<and> fielding_df loaded_example = Some [fielder_F, fielder_G] \<and> [fielder_F, fielder_G] \<noteq> []
   \<and> first_max_at Runs [row_A, row_B, row_C] 1
   \<and> first_max_at Wickets [bowler_P, bowler_Q] 1
   \<and> first_max_at Catches [fielder_F, fielder_G] 0
   \<and> individual_awards loaded_example = Inr (row_B, bowler_Q, fielder_F)"
proof -
  have b: "batting_df loaded_example = Some [row_A, row_B, row_C]" "[row_A, row_B, row_C] \<noteq> []"
    and w: "bowling_df loaded_example = Some [bowler_P, bowler_Q]" "[bowler_P, bowler_Q] \<noteq> []"
    and f: "fielding_df loaded_example = Some [fielder_F, fielder_G]"
      "[fielder_F, fielder_G] \<noteq> []"
    by (simp_all add: loaded_example_def)
  have mb: "first_max_at Runs [row_A, row_B, row_C] 1"
    by (simp add: first_max_at_def row_A_def row_B_def row_C_def nth_Cons' less_Suc_eq
        numeral_3_eq_3)
  have mw: "first_max_at Wickets [bowler_P, bowler_Q] 1"
    by (simp add: first_max_at_def bowler_P_def bowler_Q_def nth_Cons' less_Suc_eq
        numeral_2_eq_2)
  have mf: "first_max_at Catches [fielder_F, fielder_G] 0"
    by (simp add: first_max_at_def fielder_F_def fielder_G_def nth_Cons' less_Suc_eq
        numeral_2_eq_2)
  from award_rows_are_first_maxima
    [of loaded_example "[row_A, row_B, row_C]" "[bowler_P, bowler_Q]"
        "[fielder_F, fielder_G]" "[]" "[]", rule_format, OF b w f]
  obtain i j k where
    m: "first_max_at Runs [row_A, row_B, row_C] i" "first_max_at Wickets [bowler_P, bowler_Q] j"
      "first_max_at Catches [fielder_F, fielder_G] k"
    and a: "individual_awards loaded_example
            = Inr ([row_A, row_B, row_C] ! i, [bowler_P, bowler_Q] ! j, [fielder_F, fielder_G] ! k)"
    by blast
  have "i = 1" "j = 1" "k = 0"
    using m mb mw mf by (blast intro: first_max_at_unique)+
  with a have "individual_awards loaded_example = Inr (row_B, bowler_Q, fielder_F)"
    by simp
  with b w f mb mw mf show ?thesis by blast
qed

subsection \<open>Top performers\<close>

lemma insort_key_map:
  "insort_key f (g x) (map g xs) = map g (insort_key (\<lambda>a. f (g a)) x xs)"
  by (induction xs) simp_all

lemma sort_key_map: "sort_key f (map g xs) = map g (sort_key (\<lambda>a. f (g a)) xs)"
  by (induction xs) (simp_all add: insort_key_map)

lemma sort_key_by_index:
  "sort_key f df = map ((!) df) (sort_key (\<lambda>i. f (df ! i)) [0..<length df])"
proof -
  have "sort_key f df = sort_key f (map ((!) df) [0..<length df])"
    by (simp add: map_nth)
  then show ?thesis by (simp only: sort_key_map)
qed

lemma sorted_stable_lex:
  fixes h :: "nat \<Rightarrow> int"
  assumes "sorted (map h ys)"
    and "\<And>k. sorted_wrt (<) (filter (\<lambda>y. h y = k) ys)"
  shows "sorted_wrt (\<lambda>i j. h i < h j \<or> (h i = h j \<and> i < j)) ys"
  using assms
proof (induction ys)
  case Nil
  then show ?case by simp
next
  case (Cons y ys)
  have tail: "sorted_wrt (\<lambda>i j. h i < h j \<or> (h i = h j \<and> i < j)) ys"
  proof (rule Cons.IH)
    show "sorted (map h ys)" using Cons.prems(1) by simp
    show "sorted_wrt (<) (filter (\<lambda>y. h y = k) ys)" for k
      using Cons.prems(2) [of k] by (simp split: if_splits)
  qed
  have head: "h y < h z \<or> (h y = h z \<and> y < z)" if z: "z \<in> set ys" for z
  proof (cases "h y = h z")
    case True
    from Cons.prems(2) [of "h y"] have "\<forall>u\<in>set (filter (\<lambda>v. h v = h y) ys). y < u"
      by simp
    with z True show ?thesis by simp
  next
    case False
    from Cons.prems(1) z have "h y \<le> h z" by simp
    with False show ?thesis by simp
  qed
  from tail head show ?case by simp
qed

lemma sort_key_upt_ranked:
  "sorted_wrt (ranks_before col df) (sort_key (\<lambda>i. - col (df ! i)) [0..<length df])"
proof -
  let ?h = "\<lambda>i. - col (df ! i)"
  let ?ys = "sort_key ?h [0..<length df]"
  have "sorted_wrt (\<lambda>i j. ?h i < ?h j \<or> (?h i = ?h j \<and> i < j)) ?ys"
  proof (rule sorted_stable_lex)
    show "sorted (map ?h ?ys)" by (rule sorted_sort_key)
    show "sorted_wrt (<) (filter (\<lambda>y. ?h y = k) ?ys)" for k
      by (simp only: sort_key_stable) (simp add: sorted_wrt_filter)
  qed
  moreover have "(\<lambda>i j. ?h i < ?h j \<or> (?h i = ?h j \<and> i < j)) = ranks_before col df"
    by (auto simp: ranks_before_def fun_eq_iff)
  ultimately show ?thesis by simp
qed

lemma nlargest_top_rows:
  assumes "0 \<le> n" and "nlargest n col df = Inr rows"
  shows "top_rows col df (nat n) rows"
proof (cases "n = 0")
  case True
  with assms(2) have "rows = []" by (simp add: nlargest_def split: if_splits)
  with True show ?thesis by (simp add: top_rows_def)
next
  case False
  with assms have pos: "0 < n" by simp
  let ?all = "sort_key (\<lambda>i. - col (df ! i)) [0..<length df]"
  let ?idx = "take (nat n) ?all"
  have rows: "rows = map ((!) df) ?idx"
  proof -
    from sort_key_by_index [of "\<lambda>r. - col r" df]
    have "sort_key (\<lambda>r. - col r) df = map ((!) df) ?all" .
    with pos assms(2) show ?thesis by (simp add: nlargest_def take_map split: if_splits)
  qed
  have dist: "distinct ?idx" by (simp add: distinct_take)
  have bound: "\<forall>i\<in>set ?idx. i < length df"
  proof
    fix i assume "i \<in> set ?idx"
    then have "i \<in> set ?all" by (rule in_set_takeD)
    then show "i < length df" by simp
  qed
  have len: "length ?idx = min (nat n) (length df)" by (simp add: min.commute)
  have split: "sorted_wrt (ranks_before col df) (?idx @ drop (nat n) ?all)"
    using sort_key_upt_ranked [of col df] by simp
  then have srt: "sorted_wrt (ranks_before col df) ?idx"
    by (simp only: sorted_wrt_append)
  have rest: "\<forall>j<length df. j \<notin> set ?idx \<longrightarrow> (\<forall>i\<in>set ?idx. ranks_before col df i j)"
  proof (intro allI impI ballI)
    fix j i assume j: "j < length df" "j \<notin> set ?idx" and i: "i \<in> set ?idx"
    have "set ?all = set ?idx \<union> set (drop (nat n) ?all)"
      by (metis append_take_drop_id set_append)
    moreover from j(1) have "j \<in> set ?all" by simp
    ultimately have "j \<in> set (drop (nat n) ?all)" using j(2) by blast
    with split i show "ranks_before col df i j" by (simp only: sorted_wrt_append)
  qed
  from rows dist bound len srt rest show ?thesis
    unfolding top_rows_def by blast
qed

lemma ranks_before_ge: "ranks_before col df i j \<Longrightarrow> col (df ! j) \<le> col (df ! i)"
  by (auto simp: ranks_before_def)

lemma top_rows_descending:
  assumes "top_rows col df k rows"
  shows "sorted_wrt (\<lambda>r s. col s \<le> col r) rows \<and> length rows = min k (length df)"
proof -
  from assms obtain idx where idx: "rows = map ((!) df) idx" "length idx = min k (length df)"
    "sorted_wrt (ranks_before col df) idx"
    unfolding top_rows_def by blast
  from idx(3) have "sorted_wrt (\<lambda>i j. col (df ! j) \<le> col (df ! i)) idx"
    by (rule sorted_wrt_mono_rel [rotated]) (simp add: ranks_before_ge)
  then have "sorted_wrt (\<lambda>r s. col s \<le> col r) rows"
    by (simp add: idx(1) sorted_wrt_map)
  with idx show ?thesis by simp
qed


lemma nlargest_ranked:
  assumes "0 \<le> n" and "df \<noteq> []"
  shows "\<exists>rows. nlargest n col df = Inr rows
         \<and> top_rows col df (nat n) rows
         \<and> sorted_wrt (\<lambda>r s. col s \<le> col r) rows
         \<and> length rows = min (nat n) (length df)"
proof -
  from assms(2) obtain rows where r: "nlargest n col df = Inr rows"
    by (simp add: nlargest_def)
  from nlargest_top_rows [OF assms(1) r] top_rows_descending r show ?thesis by blast
qed

lemma nlargest_empty: "nlargest n col [] = Inl TypeError"
  by (simp add: nlargest_def)

lemma nlargest_scenario: "nlargest 2 Runs [row_A, row_B, row_C] = Inr [row_B, row_C]"
  by (simp add: nlargest_def row_A_def row_B_def row_C_def)

text \<open>
  Claim C1, as the code has it. For a category that is batting, bowling or fielding, a
  count \<open>n \<ge> 0\<close> and the frame of the category loaded with at least one row,
  \<open>top_performers\<close> prints its header and then one frame whose rows are the \<open>n\<close> best rows of
  the frame by \<open>Runs\<close>, \<open>Wickets\<close> or \<open>Catches\<close>: in descending order of that column, rows
  with equal values in their original order, and \<open>min n (length df)\<close> of them. On the
  batting frame \<open>(A, TeamX, 50)\<close>, \<open>(B, TeamY, 80)\<close>, \<open>(C, TeamX, 80)\<close> and \<open>n = 2\<close> the rows
  printed are those of \<open>B\<close> and \<open>C\<close>. On a frame without rows it prints its header and
  raises \<open>TypeError\<close>.
\<close>

theorem top_performers_ranked:
  "(0 \<le> n \<longrightarrow> str_lower U category = ''batting'' \<longrightarrow> batting_df self = Some b \<longrightarrow> b \<noteq> [] \<longrightarrow>
      (\<exists>top. top_performers U self category n
               = (performers_header U category n
                  @ [PrintFrame [''Player'', ''Team'', ''Runs'', ''Average'', ''Strike_Rate'']
                       (map batting_cells top)], None)
         \<and> top_rows Runs b (nat n) top
         \<and> sorted_wrt (\<lambda>r s. Runs s \<le> Runs r) top
         \<and> length top = min (nat n) (length b)))
   \<and> (0 \<le> n \<longrightarrow> str_lower U category = ''bowling'' \<longrightarrow> bowling_df self = Some w \<longrightarrow> w \<noteq> [] \<longrightarrow>
      (\<exists>top. top_performers U self category n
               = (performers_header U category n
                  @ [PrintFrame [''Player'', ''Team'', ''Wickets'', ''Economy'', ''Average'']
                       (map bowling_cells top)], None)
         \<and> top_rows Wickets w (nat n) top
         \<and> sorted_wrt (\<lambda>r s. Wickets s \<le> Wickets r) top
         \<and> length top = min (nat n) (length w)))
   \<and> (0 \<le> n \<longrightarrow> str_lower U category = ''fielding'' \<longrightarrow> fielding_df self = Some f \<longrightarrow> f \<noteq> [] \<longrightarrow>
      (\<exists>top. top_performers U self category n
               = (performers_header U category n
                  @ [PrintFrame [''Player'', ''Team'', ''Catches'', ''Matches'']
                       (map fielding_cells top)], None)
         \<and> top_rows Catches f (nat n) top
         \<and> sorted_wrt (\<lambda>r s. Catches s \<le> Catches r) top
         \<and> length top = min (nat n) (length f)))
   \<and> (str_lower U category = ''batting'' \<longrightarrow> batting_df self = Some [] \<longrightarrow>
        top_performers U self category n = (performers_header U category n, Some TypeError))
   \<and> (str_lower U category = ''bowling'' \<longrightarrow> bowling_df self = Some [] \<longrightarrow>
        top_performers U self category n = (performers_header U category n, Some TypeError))
   \<and> (str_lower U category = ''fielding'' \<longrightarrow> fielding_df self = Some [] \<longrightarrow>
        top_performers U self category n = (performers_header U category n, Some TypeError))
   \<and> top_performers U loaded_example ''batting'' 2
       = (performers_header U ''batting'' 2
          @ [PrintFrame [''Player'', ''Team'', ''Runs'', ''Average'', ''Strike_Rate'']
               [batting_cells row_B, batting_cells row_C]], None)"
proof (intro conjI impI)
  assume "0 \<le> n" "str_lower U category = ''batting''" "batting_df self = Some b" "b \<noteq> []"
  then show "\<exists>top. top_performers U self category n
               = (performers_header U category n
                  @ [PrintFrame [''Player'', ''Team'', ''Runs'', ''Average'', ''Strike_Rate'']
                       (map batting_cells top)], None)
         \<and> top_rows Runs b (nat n) top
         \<and> sorted_wrt (\<lambda>r s. Runs s \<le> Runs r) top
         \<and> length top = min (nat n) (length b)"
    using nlargest_ranked [of n b Runs]
    by (auto simp: top_performers_def attr_def and_then_def)
next
  assume "0 \<le> n" "str_lower U category = ''bowling''" "bowling_df self = Some w" "w \<noteq> []"
  then show "\<exists>top. top_performers U self category n
               = (performers_header U category n
                  @ [PrintFrame [''Player'', ''Team'', ''Wickets'', ''Economy'', ''Average'']
                       (map bowling_cells top)], None)
         \<and> top_rows Wickets w (nat n) top
         \<and> sorted_wrt (\<lambda>r s. Wickets s \<le> Wickets r) top
         \<and> length top = min (nat n) (length w)"
    using nlargest_ranked [of n w Wickets]
    by (auto simp: top_performers_def attr_def and_then_def)
next
  assume "0 \<le> n" "str_lower U category = ''fielding''" "fielding_df self = Some f" "f \<noteq> []"
  then show "\<exists>top. top_performers U self category n
               = (performers_header U category n
                  @ [PrintFrame [''Player'', ''Team'', ''Catches'', ''Matches'']
                       (map fielding_cells top)], None)
         \<and> top_rows Catches f (nat n) top
         \<and> sorted_wrt (\<lambda>r s. Catches s \<le> Catches r) top
         \<and> length top = min (nat n) (length f)"
    using nlargest_ranked [of n f Catches]
    by (auto simp: top_performers_def attr_def and_then_def)
next
  assume "str_lower U category = ''batting''" "batting_df self = Some []"
  then show "top_performers U self category n
             = (performers_header U category n, Some TypeError)"
    by (simp add: top_performers_def attr_def and_then_def nlargest_empty)
next
  assume "str_lower U category = ''bowling''" "bowling_df self = Some []"
  then show "top_performers U self category n
             = (performers_header U category n, Some TypeError)"
    by (simp add: top_performers_def attr_def and_then_def nlargest_empty)
next
  assume "str_lower U category = ''fielding''" "fielding_df self = Some []"
  then show "top_performers U self category n
             = (performers_header U category n, Some TypeError)"
    by (simp add: top_performers_def attr_def and_then_def nlargest_empty)
next
  show "top_performers U loaded_example ''batting'' 2
       = (performers_header U ''batting'' 2
          @ [PrintFrame [''Player'', ''Team'', ''Runs'', ''Average'', ''Strike_Rate'']
               [batting_cells row_B, batting_cells row_C]], None)"
    by (simp add: top_performers_def str_lower_batting loaded_example_def nlargest_scenario
        attr_def and_then_def)
qed

theorem top_performers_ranked_witness:
  "(0::int) \<le> 2 \<and> str_lower kelvin_case ''batting'' = ''batting''
   \<and> batting_df loaded_example = Some [row_A, row_B, row_C] \<and> [row_A, row_B, row_C] \<noteq> []
   \<and> (\<exists>top. top_performers kelvin_case loaded_example ''batting'' 2
               = (performers_header kelvin_case ''batting'' 2
                  @ [PrintFrame [''Player'', ''Team'', ''Runs'', ''Average'', ''Strike_Rate'']
                       (map batting_cells top)], None)
         \<and> top_rows Runs [row_A, row_B, row_C] (nat 2) top
         \<and> sorted_wrt (\<lambda>r s. Runs s \<le> Runs r) top
         \<and> length top = min (nat 2) (length [row_A, row_B, row_C]))
   \<and> str_lower kelvin_case ''bowling'' = ''bowling''
   \<and> bowling_df loaded_example = Some [bowler_P, bowler_Q] \<and> [bowler_P, bowler_Q] \<noteq> []
   \<and> (\<exists>top. top_performers kelvin_case loaded_example ''bowling'' 2
               = (performers_header kelvin_case ''bowling'' 2
                  @ [PrintFrame [''Player'', ''Team'', ''Wickets'', ''Economy'', ''Average'']
                       (map bowling_cells top)], None)
         \<and> top_rows Wickets [bowler_P, bowler_Q] (nat 2) top
         \<and> sorted_wrt (\<lambda>r s. Wickets s \<le> Wickets r) top
         \<and> length top = min (nat 2) (length [bowler_P, bowler_Q]))
   \<and> str_lower kelvin_case ''fielding'' = ''fielding''
   \<and> fielding_df loaded_example = Some [fielder_F, fielder_G] \<and> [fielder_F, fielder_G] \<noteq> []
   \<and> (\<exists>top. top_performers kelvin_case loaded_example ''fielding'' 2
               = (performers_header kelvin_case ''fielding'' 2
                  @ [PrintFrame [''Player'', ''Team'', ''Catches'', ''Matches'']
                       (map fielding_cells top)], None)
         \<and> top_rows Catches [fielder_F, fielder_G] (nat 2) top
         \<and> sorted_wrt (\<lambda>r s. Catches s \<le> Catches r) top
         \<and> length top = min (nat 2) (length [fielder_F, fielder_G]))
   \<and> batting_df empty_example = Some [] \<and> bowling_df empty_example = Some []
   \<and> fielding_df empty_example = Some []
   \<and> top_performers kelvin_case empty_example ''batting'' 2
       = (performers_header kelvin_case ''batting'' 2, Some TypeError)
   \<and> top_performers kelvin_case empty_example ''bowling'' 2
       = (performers_header kelvin_case ''bowling'' 2, Some TypeError)
   \<and> top_performers kelvin_case empty_example ''fielding'' 2
       = (performers_header kelvin_case ''fielding'' 2, Some TypeError)"
proof -
  have n: "(0::int) \<le> 2" by simp
  have b: "batting_df loaded_example = Some [row_A, row_B, row_C]"
    and w: "bowling_df loaded_example = Some [bowler_P, bowler_Q]"
    and f: "fielding_df loaded_example = Some [fielder_F, fielder_G]"
    by (simp_all add: loaded_example_def)
  have ne: "[row_A, row_B, row_C] \<noteq> []" "[bowler_P, bowler_Q] \<noteq> []"
    "[fielder_F, fielder_G] \<noteq> []"
    by simp_all
  have e: "batting_df empty_example = Some []" "bowling_df empty_example = Some []"
    "fielding_df empty_example = Some []"
    by (simp_all add: empty_example_def)
  note lb = str_lower_batting [of kelvin_case]
  note lw = str_lower_bowling [of kelvin_case]
  note lf = str_lower_fielding [of kelvin_case]
  note t = top_performers_ranked
    [of 2 kelvin_case _ loaded_example "[row_A, row_B, row_C]" "[bowler_P, bowler_Q]"
        "[fielder_F, fielder_G]"]
  note t1 = t [of "''batting''", THEN conjunct1, rule_format, OF n lb b ne(1)]
  note t2 = t [of "''bowling''", THEN conjunct2, THEN conjunct1, rule_format, OF n lw w ne(2)]
  note t3 = t [of "''fielding''", THEN conjunct2, THEN conjunct2, THEN conjunct1, rule_format,
      OF n lf f ne(3)]
  note u = top_performers_ranked [of 2 kelvin_case _ empty_example]
  note u1 = u [of "''batting''", THEN conjunct2, THEN conjunct2, THEN conjunct2,
      THEN conjunct1, rule_format, OF lb e(1)]
  note u2 = u [of "''bowling''", THEN conjunct2, THEN conjunct2, THEN conjunct2,
      THEN conjunct2, THEN conjunct1, rule_format, OF lw e(2)]
  note u3 = u [of "''fielding''", THEN conjunct2, THEN conjunct2, THEN conjunct2,
      THEN conjunct2, THEN conjunct2, THEN conjunct1, rule_format, OF lf e(3)]
  from n b w f ne e lb lw lf t1 t2 t3 u1 u2 u3
  show ?thesis by (intro conjI)
qed

text \<open>
  Claim C1, as stated, fails on a batting frame without rows: the claim promises a result
  of size \<open>min n 0 = 0\<close>, while \<open>top_performers('batting', 5)\<close> prints its header and raises
  \<open>TypeError\<close>.
\<close>

theorem top_performers_empty_table_raises:
  "batting_df empty_example = Some []
   \<and> top_performers kelvin_case empty_example ''batting'' 5
       = ([Print (''\<newline>'' @ glowing_star @ '' TOP 5 BATTING PERFORMERS''),
           Print (replicate 50 CHR ''-'')], Some TypeError)"
proof -
  have e: "batting_df empty_example = Some []" by (simp add: empty_example_def)
  have "str_upper kelvin_case ''batting'' = ''BATTING''"
    by (simp only: str_upper_ascii [OF ascii_words(2)] upper_words)
  with e show ?thesis
    by (simp add: top_performers_def str_lower_batting attr_def and_then_def nlargest_empty
        performers_header_def str_int_5)
qed

subsection \<open>Numbers as text\<close>

lemma is_digit_digit_char: "d < 10 \<Longrightarrow> is_digit (digit_char d)"
  by (simp add: is_digit_def digit_char_def)

lemma of_char_digit_char: "d < 10 \<Longrightarrow> (of_char (digit_char d) :: nat) = 48 + d"
  by (simp add: digit_char_def)

lemma str_nat_decimal: "decimal (str_nat n)"
proof (induction n rule: str_nat.induct)
  case (1 n)
  show ?case
  proof (cases "n < 10")
    case True
    then show ?thesis by (subst str_nat.simps) (simp add: decimal_def is_digit_digit_char)
  next
    case False
    with 1 have "decimal (str_nat (n div 10))" by simp
    with False show ?thesis
      by (subst str_nat.simps) (simp add: decimal_def is_digit_digit_char)
  qed
qed

lemma digits_value_snoc:
  "digits_value (s @ [c]) = 10 * digits_value s + (of_char c - 48)"
  by (simp add: digits_value_def)

lemma digits_value_str_nat: "digits_value (str_nat n) = n"
proof (induction n rule: str_nat.induct)
  case (1 n)
  show ?case
  proof (cases "n < 10")
    case True
    then show ?thesis
      by (subst str_nat.simps) (simp add: digits_value_def of_char_digit_char)
  next
    case False
    with 1 have "digits_value (str_nat (n div 10)) = n div 10" by simp
    with False show ?thesis
      by (subst str_nat.simps) (simp add: digits_value_snoc of_char_digit_char)
  qed
qed

lemma length_str_nat_le: "0 < k \<Longrightarrow> n < 10 ^ k \<Longrightarrow> length (str_nat n) \<le> k"
proof (induction n arbitrary: k rule: str_nat.induct)
  case (1 n)
  show ?case
  proof (cases "n < 10")
    case True
    with 1 show ?thesis by (subst str_nat.simps) simp
  next
    case False
    with "1.prems" obtain k' where k: "k = Suc k'" by (cases k) auto
    with False "1.prems" have "0 < k'" by (cases k') auto
    moreover from "1.prems" k have "n div 10 < 10 ^ k'"
      by (simp add: less_mult_imp_div_less mult.commute)
    ultimately have "length (str_nat (n div 10)) \<le> k'"
      using "1.IH" False by simp
    with False k show ?thesis by (subst str_nat.simps) simp
  qed
qed

lemma fmt_d_shape:
  "fmt_d w v = replicate (w - length (str_int v)) CHR '' '' @ str_int v
   \<and> length (fmt_d w v) = max w (length (str_int v))"
  by (simp add: fmt_d_def rjust_def)

lemma str_int_nonneg:
  "0 \<le> v \<Longrightarrow> decimal (str_int v) \<and> digits_value (str_int v) = nat v"
  by (simp add: str_int_def str_nat_decimal digits_value_str_nat)

lemma length_fmt_d_2: "0 \<le> v \<Longrightarrow> v < 100 \<Longrightarrow> length (fmt_d 2 v) = 2"
proof -
  assume v: "0 \<le> v" "v < 100"
  then have "nat v < 10 ^ 2" by simp
  then have "length (str_nat (nat v)) \<le> 2" by (intro length_str_nat_le) simp_all
  with v show ?thesis by (simp add: fmt_d_def rjust_def str_int_def)
qed

lemma fmt_left_shape:
  "fmt_left w s = s @ replicate (w - length s) CHR '' '' \<and> length (fmt_left w s) = max w (length s)"
  by (simp add: fmt_left_def ljust_def)

lemma digits_value_append:
  "digits_value (a @ b) = digits_value a * 10 ^ length b + digits_value b"
proof (induction b rule: rev_induct)
  case Nil
  then show ?case by (simp add: digits_value_def)
next
  case (snoc c b)
  have "digits_value (a @ b @ [c]) = 10 * digits_value (a @ b) + (of_char c - 48)"
    using digits_value_snoc [of "a @ b" c] by simp
  with snoc show ?case by (simp add: digits_value_snoc algebra_simps)
qed

lemma digits_value_zeros: "digits_value (replicate z CHR ''0'') = 0"
proof (induction z)
  case 0
  then show ?case by (simp add: digits_value_def)
next
  case (Suc z)
  have "replicate (Suc z) CHR ''0'' = replicate z CHR ''0'' @ [CHR ''0'']"
    by (simp add: replicate_append_same)
  then show ?case using Suc by (simp only: digits_value_snoc) simp
qed

lemma digits_value_rjust: "digits_value (rjust p CHR ''0'' s) = digits_value s"
  by (simp add: rjust_def digits_value_append digits_value_zeros)

lemma round_scaled_nearest:
  assumes "e < 0"
  shows "2 * (round_scaled m e p * 2 ^ nat (- e)) \<le> 2 * (m * 10 ^ p) + 2 ^ nat (- e)
         \<and> 2 * (m * 10 ^ p) \<le> 2 * (round_scaled m e p * 2 ^ nat (- e)) + 2 ^ nat (- e)"
proof -
  define d :: nat where "d = 2 ^ nat (- e)"
  define n where "n = m * 10 ^ p"
  define q where "q = n div d"
  define r where "r = n mod d"
  have n: "n = q * d + r" by (simp add: q_def r_def)
  have r: "r < d" by (simp add: r_def d_def)
  have k: "round_scaled m e p
           = (if 2 * r < d then q else if d < 2 * r then q + 1 else if even q then q else q + 1)"
    using assms by (simp add: round_scaled_def Let_def d_def n_def q_def r_def)
  have "2 * (round_scaled m e p * d) \<le> 2 * n + d \<and> 2 * n \<le> 2 * (round_scaled m e p * d) + d"
    unfolding k n using r by (auto simp: algebra_simps)
  then show ?thesis by (simp add: d_def n_def)
qed

lemma round_scaled_exact: "0 \<le> e \<Longrightarrow> round_scaled m e p = m * 2 ^ nat e * 10 ^ p"
  by (simp add: round_scaled_def)

lemma fixed_digits_shape:
  assumes "0 < p"
  shows "\<exists>whole frac. fixed_digits p k = whole @ ''.'' @ frac \<and> decimal whole
           \<and> list_all is_digit frac \<and> length frac = p
           \<and> digits_value whole * 10 ^ p + digits_value frac = k"
proof -
  let ?frac = "rjust p CHR ''0'' (str_nat (k mod 10 ^ p))"
  have "k mod 10 ^ p < 10 ^ p" by simp
  with assms have le: "length (str_nat (k mod 10 ^ p)) \<le> p" by (rule length_str_nat_le)
  then have len: "length ?frac = p" by (simp add: rjust_def)
  have z: "is_digit CHR ''0''" by (simp add: is_digit_def)
  have "list_all is_digit ?frac"
    using str_nat_decimal [of "k mod 10 ^ p"] z
    by (auto simp: rjust_def decimal_def list_all_iff)
  moreover have "digits_value (str_nat (k div 10 ^ p)) * 10 ^ p + digits_value ?frac = k"
    by (simp add: digits_value_rjust digits_value_str_nat div_mult_mod_eq)
  ultimately show ?thesis
    using len str_nat_decimal [of "k div 10 ^ p"] unfolding fixed_digits_def by blast
qed

lemma fmt_f_signed_shape:
  assumes "0 < p"
  shows "\<exists>whole frac. fmt_f True p (Finite s m e)
             = (if s then CHR ''-'' else CHR ''+'') # whole @ ''.'' @ frac
           \<and> decimal whole \<and> list_all is_digit frac \<and> length frac = p
           \<and> digits_value whole * 10 ^ p + digits_value frac = round_scaled m e p"
proof -
  from fixed_digits_shape [OF assms, of "round_scaled m e p"] obtain whole frac where
    "fixed_digits p (round_scaled m e p) = whole @ ''.'' @ frac" "decimal whole"
    "list_all is_digit frac" "length frac = p"
    "digits_value whole * 10 ^ p + digits_value frac = round_scaled m e p" by blast
  then show ?thesis by (auto simp: fmt_f_def)
qed

lemma str_nat_small:
  "str_nat 0 = ''0''" "str_nat 1 = ''1''" "str_nat 2 = ''2''" "str_nat 4 = ''4''"
  "str_nat 8 = ''8''" "str_nat 9 = ''9''" "str_nat 10 = ''10''" "str_nat 19 = ''19''"
  "str_nat 188 = ''188''" "str_nat 312 = ''312''"
  by code_simp+

lemma str_int_small:
  "str_int 1 = ''1''" "str_int 2 = ''2''" "str_int 4 = ''4''" "str_int 8 = ''8''"
  "str_int 9 = ''9''" "str_int 10 = ''10''" "str_int 19 = ''19''"
  by code_simp+

lemma round_scaled_examples:
  "round_scaled 5 (- 4) 3 = 312" "round_scaled 3 (- 4) 3 = 188"
  by (simp_all add: round_scaled_def Let_def)

lemma fmt_f_examples:
  "fmt_f True 3 (Finite False 5 (- 4)) = ''+0.312''"
  "fmt_f True 3 (Finite True 3 (- 4)) = ''-0.188''"
  by (simp_all add: fmt_f_def fixed_digits_def round_scaled_examples str_nat_small rjust_def)

lemma fmt_d_examples:
  "fmt_d 2 1 = '' 1''" "fmt_d 2 2 = '' 2''" "fmt_d 2 4 = '' 4''" "fmt_d 2 8 = '' 8''"
  "fmt_d 2 9 = '' 9''" "fmt_d 2 10 = ''10''" "fmt_d 2 19 = ''19''"
  by (simp_all add: fmt_d_def rjust_def str_int_small)

lemma fmt_left_examples:
  "fmt_left 4 ''TX'' = ''TX  ''" "fmt_left 4 ''TEAMY'' = ''TEAMY''"
  by (simp_all add: fmt_left_def ljust_def numeral_2_eq_2)

lemma team_line_X:
  "team_line team_X = '' 1. TX   - 19 pts | W:  9 L:  4 | NRR: +0.312\<newline>''"
  by (simp add: team_line_def team_X_def fmt_d_examples fmt_left_examples fmt_f_examples)

lemma team_line_Y:
  "team_line team_Y = '' 2. TEAMY -  8 pts | W:  4 L: 10 | NRR: -0.188\<newline>''"
  by (simp add: team_line_def team_Y_def fmt_d_examples fmt_left_examples fmt_f_examples)

subsection \<open>The points table of the report\<close>

lemma written_points_table:
  assumes "individual_awards self = Inr a" and "team_df self = Some t"
  shows "\<exists>rest. written (generate_report self filename stamp)
           = report_head stamp @ award_writes a @ [''FINAL POINTS TABLE\<newline>'', rule20]
             @ map team_line t @ rest"
  using assms
  by (auto simp: generate_report_def Let_def attr_def and_then_def
      split: option.splits sum.splits)

text \<open>
  Claim C6, as the code has it. After the awards \<open>generate_report\<close> writes the heading
  of the points table and then one line for every row of the team frame, in stored order;
  this is the order of \<open>Position\<close> whenever the frame is stored in that order. In a line,
  \<open>Position\<close>, \<open>Points\<close>, \<open>Won\<close> and \<open>Lost\<close> are written in decimal, right-aligned with
  spaces in at least two columns (exactly two for values from 0 to 99); \<open>Team\<close> is
  left-aligned and filled with spaces on its right to at least four columns; a finite
  \<open>NRR\<close> is written as a sign, \<open>+\<close> or \<open>-\<close>, the digits of the whole part, a point and
  exactly three digits, the number so denoted being the value in thousandths rounded to
  the nearest integer.
\<close>

theorem report_points_table:
  "(individual_awards self = Inr a \<longrightarrow> team_df self = Some t \<longrightarrow>
      (\<exists>rest. written (generate_report self filename stamp)
           = report_head stamp @ award_writes a @ [''FINAL POINTS TABLE\<newline>'', rule20]
             @ map team_line t @ rest)
      \<and> (sorted (map Position t) \<longrightarrow> map team_line t = map team_line (sort_key Position t)))
   \<and> team_line team
       = fmt_d 2 (Position team) @ ''. '' @ fmt_left 4 (team_row.Team team) @ '' - ''
         @ fmt_d 2 (Points team) @ '' pts | W: '' @ fmt_d 2 (Won team) @ '' L: ''
         @ fmt_d 2 (Lost team) @ '' | NRR: '' @ fmt_f True 3 (NRR team) @ ''\<newline>''
   \<and> fmt_d 2 v = replicate (2 - length (str_int v)) CHR '' '' @ str_int v
   \<and> (0 \<le> v \<longrightarrow> decimal (str_int v) \<and> digits_value (str_int v) = nat v)
   \<and> (0 \<le> v \<longrightarrow> v < 100 \<longrightarrow> length (fmt_d 2 v) = 2)
   \<and> fmt_left 4 s = s @ replicate (4 - length s) CHR '' ''
   \<and> (\<exists>whole frac. fmt_f True 3 (Finite neg m e)
           = (if neg then CHR ''-'' else CHR ''+'') # whole @ ''.'' @ frac
         \<and> decimal whole \<and> list_all is_digit frac \<and> length frac = 3
         \<and> digits_value whole * 1000 + digits_value frac = round_scaled m e 3)
   \<and> (e < 0 \<longrightarrow>
         2 * (round_scaled m e 3 * 2 ^ nat (- e)) \<le> 2 * (m * 1000) + 2 ^ nat (- e)
         \<and> 2 * (m * 1000) \<le> 2 * (round_scaled m e 3 * 2 ^ nat (- e)) + 2 ^ nat (- e))
   \<and> (0 \<le> e \<longrightarrow> round_scaled m e 3 = m * 2 ^ nat e * 1000)"
proof -
  have 1: "individual_awards self = Inr a \<longrightarrow> team_df self = Some t \<longrightarrow>
      (\<exists>rest. written (generate_report self filename stamp)
           = report_head stamp @ award_writes a @ [''FINAL POINTS TABLE\<newline>'', rule20]
             @ map team_line t @ rest)
      \<and> (sorted (map Position t) \<longrightarrow> map team_line t = map team_line (sort_key Position t))"
    using written_points_table [of self a t filename stamp]
    by (simp add: sort_key_sorted_id)
  have 2: "team_line team
       = fmt_d 2 (Position team) @ ''. '' @ fmt_left 4 (team_row.Team team) @ '' - ''
         @ fmt_d 2 (Points team) @ '' pts | W: '' @ fmt_d 2 (Won team) @ '' L: ''
         @ fmt_d 2 (Lost team) @ '' | NRR: '' @ fmt_f True 3 (NRR team) @ ''\<newline>''"
    by (simp add: team_line_def)
  have 3: "fmt_d 2 v = replicate (2 - length (str_int v)) CHR '' '' @ str_int v"
    using fmt_d_shape [of 2 v] by simp
  have 4: "0 \<le> v \<longrightarrow> decimal (str_int v) \<and> digits_value (str_int v) = nat v"
    using str_int_nonneg [of v] by simp
  have 5: "0 \<le> v \<longrightarrow> v < 100 \<longrightarrow> length (fmt_d 2 v) = 2"
    using length_fmt_d_2 [of v] by simp
  have 6: "fmt_left 4 s = s @ replicate (4 - length s) CHR '' ''"
    using fmt_left_shape [of 4 s] by simp
  have 7: "\<exists>whole frac. fmt_f True 3 (Finite neg m e)
           = (if neg then CHR ''-'' else CHR ''+'') # whole @ ''.'' @ frac
         \<and> decimal whole \<and> list_all is_digit frac \<and> length frac = 3
         \<and> digits_value whole * 1000 + digits_value frac = round_scaled m e 3"
    using fmt_f_signed_shape [of 3 neg m e] by simp
  have 8: "e < 0 \<longrightarrow>
         2 * (round_scaled m e 3 * 2 ^ nat (- e)) \<le> 2 * (m * 1000) + 2 ^ nat (- e)
         \<and> 2 * (m * 1000) \<le> 2 * (round_scaled m e 3 * 2 ^ nat (- e)) + 2 ^ nat (- e)"
    using round_scaled_nearest [of e m 3] by simp
  have 9: "0 \<le> e \<longrightarrow> round_scaled m e 3 = m * 2 ^ nat e * 1000"
    using round_scaled_exact [of e m 3] by simp
  from 1 2 3 4 5 6 7 8 9 show ?thesis by (intro conjI)
qed

theorem report_points_table_witness:
  "individual_awards ordered_example = Inr (row_B, bowler_Q, fielder_F)
   \<and> team_df ordered_example = Some [team_X, team_Y]
   \<and> sorted (map Position [team_X, team_Y])
   \<and> (\<exists>rest. written (generate_report ordered_example ''report.txt'' ''2025-08-01 10:00:00'')
           = report_head ''2025-08-01 10:00:00'' @ award_writes (row_B, bowler_Q, fielder_F)
             @ [''FINAL POINTS TABLE\<newline>'', rule20]
             @ ['' 1. TX   - 19 pts | W:  9 L:  4 | NRR: +0.312\<newline>'',
                '' 2. TEAMY -  8 pts | W:  4 L: 10 | NRR: -0.188\<newline>'']
             @ rest)
   \<and> map team_line [team_X, team_Y] = map team_line (sort_key Position [team_X, team_Y])
   \<and> (0::int) \<le> 19 \<and> (19::int) < 100 \<and> fmt_d 2 19 = ''19'' \<and> length (fmt_d 2 19) = 2
   \<and> decimal (str_int 19) \<and> digits_value (str_int 19) = 19
   \<and> fmt_left 4 ''TX'' = ''TX  ''
   \<and> (- 4 :: int) < 0
   \<and> fmt_f True 3 (Finite True 3 (- 4)) = ''-0.188''
   \<and> round_scaled 3 (- 4) 3 = 188
   \<and> 2 * (round_scaled 3 (- 4) 3 * 2 ^ nat 4) \<le> 2 * (3 * 1000) + (2::nat) ^ nat 4
   \<and> 2 * (3 * 1000) \<le> 2 * (round_scaled 3 (- 4) 3 * 2 ^ nat 4) + (2::nat) ^ nat 4
   \<and> (0::int) \<le> 1 \<and> round_scaled 3 1 3 = 3 * 2 ^ nat 1 * 1000"
proof -
  have t: "team_df ordered_example = Some [team_X, team_Y]"
    by (simp add: ordered_example_def)
  have s: "sorted (map Position [team_X, team_Y])"
    by (simp add: team_X_def team_Y_def)
  note r = report_points_table
    [of ordered_example "(row_B, bowler_Q, fielder_F)" "[team_X, team_Y]" "''report.txt''"
        "''2025-08-01 10:00:00''" team_X 19 "''TX''" True 3]
  note r1 = r [of "- 4", THEN conjunct1, rule_format, OF awards_ordered_example t]
  from r1 have a: "\<exists>rest. written (generate_report ordered_example ''report.txt''
                                     ''2025-08-01 10:00:00'')
           = report_head ''2025-08-01 10:00:00'' @ award_writes (row_B, bowler_Q, fielder_F)
             @ [''FINAL POINTS TABLE\<newline>'', rule20]
             @ ['' 1. TX   - 19 pts | W:  9 L:  4 | NRR: +0.312\<newline>'',
                '' 2. TEAMY -  8 pts | W:  4 L: 10 | NRR: -0.188\<newline>'']
             @ rest"
    by (simp add: team_line_X team_line_Y)
  from r1 s
  have b: "map team_line [team_X, team_Y] = map team_line (sort_key Position [team_X, team_Y])"
    by blast
  note r4 = r [of "- 4", THEN conjunct2, THEN conjunct2, THEN conjunct2, THEN conjunct1,
      rule_format]
  note r5 = r [of "- 4", THEN conjunct2, THEN conjunct2, THEN conjunct2, THEN conjunct2,
      THEN conjunct1, rule_format]
  note r8 = r [of "- 4", THEN conjunct2, THEN conjunct2, THEN conjunct2, THEN conjunct2,
      THEN conjunct2, THEN conjunct2, THEN conjunct2, THEN conjunct1, rule_format]
  note r9 = r [of 1, THEN conjunct2, THEN conjunct2, THEN conjunct2, THEN conjunct2,
      THEN conjunct2, THEN conjunct2, THEN conjunct2, THEN conjunct2, rule_format]
  have c: "length (fmt_d 2 19) = 2" "decimal (str_int 19)" "digits_value (str_int 19) = 19"
    using r4 r5 by simp_all
  have c8: "2 * (round_scaled 3 (- 4) 3 * 2 ^ nat 4) \<le> 2 * (3 * 1000) + (2::nat) ^ nat 4"
    "2 * (3 * 1000) \<le> 2 * (round_scaled 3 (- 4) 3 * 2 ^ nat 4) + (2::nat) ^ nat 4"
    using r8 by simp_all
  have d: "round_scaled 3 1 3 = 3 * 2 ^ nat 1 * 1000"
    using r9 by simp
  from awards_ordered_example t s a b c c8 d fmt_d_examples(7) fmt_left_examples(1)
    fmt_f_examples(2) round_scaled_examples(2)
  show ?thesis by (intro conjI) simp_all
qed

text \<open>
  Claim C6, as stated, fails on a team frame stored with position 2 before position 1:
  the report lists the line of position 2 first, while the table ordered by \<open>Position\<close>
  starts with the line of position 1.
\<close>

theorem report_keeps_stored_order:
  "map Position [team_Y, team_X] = [2, 1]
   \<and> team_df loaded_example = Some [team_Y, team_X]
   \<and> take 2 (drop 16 (written (generate_report loaded_example ''report.txt''
                                  ''2025-08-01 10:00:00'')))
       = ['' 2. TEAMY -  8 pts | W:  4 L: 10 | NRR: -0.188\<newline>'',
          '' 1. TX   - 19 pts | W:  9 L:  4 | NRR: +0.312\<newline>'']
   \<and> map team_line (sort_key Position [team_Y, team_X])
       = ['' 1. TX   - 19 pts | W:  9 L:  4 | NRR: +0.312\<newline>'',
          '' 2. TEAMY -  8 pts | W:  4 L: 10 | NRR: -0.188\<newline>'']"
proof -
  have p: "map Position [team_Y, team_X] = [2, 1]"
    by (simp add: team_X_def team_Y_def)
  have t: "team_df loaded_example = Some [team_Y, team_X]"
    by (simp add: loaded_example_def)
  from written_points_table [OF awards_loaded_example t] obtain rest where
    "written (generate_report loaded_example ''report.txt'' ''2025-08-01 10:00:00'')
       = report_head ''2025-08-01 10:00:00'' @ award_writes (row_B, bowler_Q, fielder_F)
         @ [''FINAL POINTS TABLE\<newline>'', rule20] @ map team_line [team_Y, team_X] @ rest"
    by blast
  moreover have "length (report_head ''2025-08-01 10:00:00''
                   @ award_writes (row_B, bowler_Q, fielder_F)
                   @ [''FINAL POINTS TABLE\<newline>'', rule20]) = 16"
    by (simp add: report_head_def award_writes_def)
  ultimately have w: "take 2 (drop 16 (written (generate_report loaded_example ''report.txt''
                                  ''2025-08-01 10:00:00'')))
       = [team_line team_Y, team_line team_X]"
    by simp
  have "sort_key Position [team_Y, team_X] = [team_X, team_Y]"
    by (simp add: team_X_def team_Y_def)
  with p t w show ?thesis by (simp add: team_line_X team_line_Y)
qed

end
